theory Spec2Isabelle
  imports Complex_Main "HOL-Library.Multiset"
begin

section \<open>Amounts: binary64 floating point\<close>

text \<open>
  Amounts are Python floats read with \<open>float(input())\<close>, and the balance is computed
  with the float operations \<open>+=\<close> and \<open>-=\<close>: IEEE 754 binary64 with rounding to
  nearest, ties to even. The type \<open>float64\<close> holds the finite binary64 values, the
  two infinities and NaN. A finite value is a real \<open>m * 2^e\<close> with \<open>|m| < 2^53\<close> and
  \<open>-1074 \<le> e \<le> 971\<close>. The two zeros \<open>0.0\<close> and \<open>-0.0\<close>, which compare equal and
  differ only when printed, are one value. The integers that the source writes
  (\<open>_saldo = 0\<close>, \<open>limite=500\<close>, \<open>deposito_minimo=100\<close>, \<open>valor >= 100\<close>) are
  exact as floats, and Python compares and adds them with floats as such.
\<close>

definition representavel :: "real \<Rightarrow> bool" where
  "representavel x \<longleftrightarrow>
     (\<exists>m e :: int. x = of_int m * 2 powr of_int e \<and> \<bar>m\<bar> < 2 ^ 53 \<and> - 1074 \<le> e \<and> e \<le> 971)"

typedef finito = "{x. representavel x}"
  morphisms valor_real Finito_de
proof
  have "(0::real) = of_int 0 * 2 powr of_int 0 \<and> \<bar>0::int\<bar> < 2 ^ 53 \<and> - 1074 \<le> (0::int) \<and> (0::int) \<le> 971"
    by simp
  then show "0 \<in> {x. representavel x}"
    unfolding representavel_def by blast
qed

datatype float64 = Finito finito | Inf_pos | Inf_neg | NaN

text \<open>Rounding of a real to the nearest integer, a tie going to the even one.\<close>

definition arredondar_inteiro :: "real \<Rightarrow> int" where
  "arredondar_inteiro q =
     (let f = \<lfloor>q\<rfloor>; d = q - of_int f
      in if d < 1 / 2 then f else if 1 / 2 < d then f + 1 else if even f then f else f + 1)"

text \<open>
  The exponent of the last mantissa bit of the binary64 format at \<open>x\<close>: 52 binary
  places below the leading bit, and never below that of the subnormal numbers.
\<close>

definition expoente :: "real \<Rightarrow> int" where
  "expoente x = max (\<lfloor>log 2 \<bar>x\<bar>\<rfloor> - 52) (- 1074)"

text \<open>
  \<open>f64 x\<close> is the binary64 value nearest to the real \<open>x\<close>: what \<open>float\<close> makes of a
  decimal numeral, and what an operation makes of its exact result. A result that
  rounds to \<open>2^1024\<close> or beyond in magnitude is an infinity.
\<close>

definition f64 :: "real \<Rightarrow> float64" where
  "f64 x =
     (if x = 0 then Finito (Finito_de 0)
      else (let e = expoente x;
                y = of_int (arredondar_inteiro (x / 2 powr of_int e)) * 2 powr of_int e
            in if 2 ^ 1024 \<le> \<bar>y\<bar> then (if 0 < y then Inf_pos else Inf_neg)
               else Finito (Finito_de y)))"

text \<open>The comparisons \<open><\<close> and \<open><=\<close>: every comparison with NaN is false.\<close>

fun menor :: "float64 \<Rightarrow> float64 \<Rightarrow> bool" where
  "menor NaN b = False"
| "menor a NaN = False"
| "menor (Finito x) (Finito y) = (valor_real x < valor_real y)"
| "menor Inf_neg Inf_neg = False"
| "menor Inf_neg b = True"
| "menor a Inf_neg = False"
| "menor Inf_pos b = False"
| "menor a Inf_pos = True"

fun menor_igual :: "float64 \<Rightarrow> float64 \<Rightarrow> bool" where
  "menor_igual NaN b = False"
| "menor_igual a NaN = False"
| "menor_igual (Finito x) (Finito y) = (valor_real x \<le> valor_real y)"
| "menor_igual Inf_neg b = True"
| "menor_igual a Inf_neg = False"
| "menor_igual a Inf_pos = True"
| "menor_igual Inf_pos b = False"

text \<open>Addition and subtraction: NaN is absorbing, opposite infinities cancel to NaN,
  and a finite result is rounded.\<close>

fun soma :: "float64 \<Rightarrow> float64 \<Rightarrow> float64" where
  "soma NaN b = NaN"
| "soma a NaN = NaN"
| "soma (Finito x) (Finito y) = f64 (valor_real x + valor_real y)"
| "soma Inf_pos Inf_neg = NaN"
| "soma Inf_neg Inf_pos = NaN"
| "soma Inf_pos b = Inf_pos"
| "soma Inf_neg b = Inf_neg"
| "soma a Inf_pos = Inf_pos"
| "soma a Inf_neg = Inf_neg"

fun diferenca :: "float64 \<Rightarrow> float64 \<Rightarrow> float64" where
  "diferenca NaN b = NaN"
| "diferenca a NaN = NaN"
| "diferenca (Finito x) (Finito y) = f64 (valor_real x - valor_real y)"
| "diferenca Inf_pos Inf_pos = NaN"
| "diferenca Inf_neg Inf_neg = NaN"
| "diferenca Inf_pos b = Inf_pos"
| "diferenca Inf_neg b = Inf_neg"
| "diferenca a Inf_pos = Inf_neg"
| "diferenca a Inf_neg = Inf_pos"

instantiation float64 :: "{zero, plus, minus, ord}"
begin

definition zero_float64 :: float64 where
  "zero_float64 = Finito (Finito_de 0)"

definition plus_float64 :: "float64 \<Rightarrow> float64 \<Rightarrow> float64" where
  "plus_float64 a b = soma a b"

definition minus_float64 :: "float64 \<Rightarrow> float64 \<Rightarrow> float64" where
  "minus_float64 a b = diferenca a b"

definition less_float64 :: "float64 \<Rightarrow> float64 \<Rightarrow> bool" where
  "less_float64 a b = menor a b"

definition less_eq_float64 :: "float64 \<Rightarrow> float64 \<Rightarrow> bool" where
  "less_eq_float64 a b = menor_igual a b"

instance ..

end

text \<open>The real that a finite value is; an infinity and NaN are none.\<close>

fun valor_exato :: "float64 \<Rightarrow> real option" where
  "valor_exato (Finito x) = Some (valor_real x)"
| "valor_exato a = None"

section \<open>The class-based program: accounts and transactions\<close>

text \<open>Source: \<^verbatim>\<open>src/conta_bancaria_v2.py\<close>.\<close>

text \<open>
  An entry of \<open>ImprimirExtrato._transacoes\<close> is the dictionary
  \<open>{"tipo": class name, "valor": amount, "data": timestamp}\<close>; the timestamp is only
  printed and is left out.
\<close>

datatype tipo_transacao = Saque | Deposito

record transacao =
  tipo :: tipo_transacao
  valor :: float64

text \<open>
  \<open>ContaCorrente(cliente, limite=500, limite_saque=3)\<close> and
  \<open>ContaPoupanca(cliente, deposito_minimo=100)\<close> are the two subclasses of
  \<open>ContaBancaria\<close>; the subclass and its own attributes are the field \<open>variante\<close>.
  The owner \<open>_cliente\<close> is kept as the owner's CPF/CNPJ, and the account number
  \<open>"prefixo-sufixo"\<close> as the pair of its two numbers (\<open>None\<close> is the empty string
  that \<open>__init__\<close> stores).
\<close>

datatype variante =
    ContaCorrente float64 int
  | ContaPoupanca float64

record conta =
  agencia :: string
  titular :: string
  numero_conta :: "(int \<times> int) option"
  saldo :: float64
  extrato :: "transacao list"
  variante :: variante

text \<open>
  The methods return a bool and print one message; the message is the first component of
  the result, and the bool is \<open>True\<close> exactly for \<open>Sucesso\<close>.
  \<^item> \<open>SaldoInsuficiente\<close>: "Saldo insuficiente" (the spec's InsufficientBalance);
  \<^item> \<open>ValorInvalido\<close>: "O valor informado e invalido" (InvalidAmount);
  \<^item> \<open>LimiteExcedido\<close>: "O saque excede o limite" (LimitExceeded);
  \<^item> \<open>SaquesExcedidos\<close>: "Numero maximo de saques diario excedido"
    (DailyWithdrawalCapReached).
\<close>

datatype mensagem =
    Sucesso
  | SaldoInsuficiente
  | ValorInvalido
  | LimiteExcedido
  | SaquesExcedidos

definition ContaBancaria_init :: "string \<Rightarrow> variante \<Rightarrow> conta" where
  "ContaBancaria_init cliente var =
     \<lparr>agencia = ''0001'', titular = cliente, numero_conta = None, saldo = 0,
      extrato = [], variante = var\<rparr>"

definition ContaBancaria_sacar :: "conta \<Rightarrow> float64 \<Rightarrow> mensagem \<times> conta" where
  "ContaBancaria_sacar c v =
     (if v > saldo c then (SaldoInsuficiente, c)
      else if v > 0 then (Sucesso, c\<lparr>saldo := saldo c - v\<rparr>)
      else (ValorInvalido, c))"

definition ContaBancaria_depositar :: "conta \<Rightarrow> float64 \<Rightarrow> mensagem \<times> conta" where
  "ContaBancaria_depositar c v =
     (if v \<le> 0 then (ValorInvalido, c)
      else (Sucesso, c\<lparr>saldo := saldo c + v\<rparr>))"

definition numero_saques :: "conta \<Rightarrow> nat" where
  "numero_saques c = length (filter (\<lambda>t. tipo t = Saque) (extrato c))"

definition ContaCorrente_sacar :: "float64 \<Rightarrow> int \<Rightarrow> conta \<Rightarrow> float64 \<Rightarrow> mensagem \<times> conta" where
  "ContaCorrente_sacar limite limite_saque c v =
     (let excedeu_limite = v > limite;
          excedeu_saques = int (numero_saques c) \<ge> limite_saque
      in if excedeu_limite then (LimiteExcedido, c)
         else if excedeu_saques then (SaquesExcedidos, c)
         else ContaBancaria_sacar c v)"

definition ContaPoupanca_depositar :: "conta \<Rightarrow> float64 \<Rightarrow> mensagem \<times> conta" where
  "ContaPoupanca_depositar c v =
     (if v > 0 then (Sucesso, snd (ContaBancaria_depositar c v))
      else (ValorInvalido, c))"

definition numero_deposito :: "conta \<Rightarrow> nat" where
  "numero_deposito c = length (filter (\<lambda>t. tipo t = Deposito) (extrato c))"

text \<open>Method dispatch on the subclass: \<open>conta.sacar(valor=v)\<close> and \<open>conta.depositar(v)\<close>.\<close>

definition sacar :: "conta \<Rightarrow> float64 \<Rightarrow> mensagem \<times> conta" where
  "sacar c v =
     (case variante c of
        ContaCorrente limite limite_saque \<Rightarrow> ContaCorrente_sacar limite limite_saque c v
      | ContaPoupanca dm \<Rightarrow> ContaBancaria_sacar c v)"

definition depositar :: "conta \<Rightarrow> float64 \<Rightarrow> mensagem \<times> conta" where
  "depositar c v =
     (case variante c of
        ContaCorrente limite limite_saque \<Rightarrow> ContaBancaria_depositar c v
      | ContaPoupanca dm \<Rightarrow> ContaPoupanca_depositar c v)"

definition adicionar_transacao :: "conta \<Rightarrow> transacao \<Rightarrow> conta" where
  "adicionar_transacao c t = c\<lparr>extrato := extrato c @ [\<lparr>tipo = tipo t, valor = valor t\<rparr>]\<rparr>"

text \<open>
  \<open>Saque.registrar\<close> and \<open>Deposito.registrar\<close>: the returned transaction (\<open>None\<close> on
  failure) and the account after the call.
\<close>

definition Saque_registrar :: "conta \<Rightarrow> float64 \<Rightarrow> transacao option \<times> conta" where
  "Saque_registrar c v =
     (let (m, c') = sacar c v
      in if m = Sucesso
         then (let t = \<lparr>tipo = Saque, valor = v\<rparr> in (Some t, adicionar_transacao c' t))
         else (None, c'))"

definition Deposito_registrar :: "conta \<Rightarrow> float64 \<Rightarrow> transacao option \<times> conta" where
  "Deposito_registrar c v =
     (let (m, c') = depositar c v
      in if m = Sucesso
         then (let t = \<lparr>tipo = Deposito, valor = v\<rparr> in (Some t, adicionar_transacao c' t))
         else (None, c'))"

text \<open>\<open>Cliente.realizar_transacao(conta, transacao_cls, valor)\<close> calls
  \<open>transacao_cls.registrar(conta, valor)\<close>.\<close>

definition registrar :: "tipo_transacao \<Rightarrow> conta \<Rightarrow> float64 \<Rightarrow> transacao option \<times> conta" where
  "registrar k c v = (case k of Saque \<Rightarrow> Saque_registrar c v | Deposito \<Rightarrow> Deposito_registrar c v)"

text \<open>A sequence of register calls on one account: the results in call order and the
  account at the end.\<close>

fun registrar_seq :: "conta \<Rightarrow> (tipo_transacao \<times> float64) list \<Rightarrow> transacao option list \<times> conta" where
  "registrar_seq c [] = ([], c)"
| "registrar_seq c ((k, v) # ps) =
     (let (r, c') = registrar k c v; (rs, c'') = registrar_seq c' ps in (r # rs, c''))"

text \<open>
  The spec's sum of the signed amounts of a ledger, deposits positive and withdrawals
  negative, starting from zero: the exact sum of the reals that the amounts are, and
  \<open>None\<close> when an amount is an infinity or NaN.
\<close>

definition valor_com_sinal :: "transacao \<Rightarrow> real option" where
  "valor_com_sinal t =
     (case valor_exato (valor t) of
        None \<Rightarrow> None
      | Some x \<Rightarrow> Some (case tipo t of Deposito \<Rightarrow> x | Saque \<Rightarrow> - x))"

fun soma_extrato :: "transacao list \<Rightarrow> real option" where
  "soma_extrato [] = Some 0"
| "soma_extrato (t # ts) =
     (case (valor_com_sinal t, soma_extrato ts) of
        (Some x, Some s) \<Rightarrow> Some (x + s)
      | _ \<Rightarrow> None)"

text \<open>
  The same ledger accumulated the way the code accumulates the balance: from zero, in
  ledger order, one binary64 addition for a deposit and one subtraction for a
  withdrawal.
\<close>

definition acumular :: "float64 \<Rightarrow> transacao \<Rightarrow> float64" where
  "acumular a t = (case tipo t of Deposito \<Rightarrow> a + valor t | Saque \<Rightarrow> a - valor t)"

definition saldo_acumulado :: "transacao list \<Rightarrow> float64" where
  "saldo_acumulado ts = foldl acumular 0 ts"

text \<open>The number of calls of a sequence that succeeded (returned a record).\<close>

definition sucessos :: "transacao option list \<Rightarrow> nat" where
  "sucessos rs = length (filter (\<lambda>r. r \<noteq> None) rs)"

section \<open>The class-based program: clients and the bank\<close>

text \<open>
  \<open>PessoaFisica(nome, data_nascimento, cpf, ...)\<close> and
  \<open>PessoaJuridica(razao_social, cnpj, ...)\<close> extend \<open>Cliente(endereco, numero, cep)\<close>,
  whose \<open>__init__\<close> sets \<open>contas = []\<close>. The address is an opaque value here.
\<close>

datatype pessoa =
    PessoaFisica string string string
  | PessoaJuridica string string

record cliente =
  pessoa :: pessoa
  endereco :: "string list"
  numero :: string
  cep :: string
  contas :: "conta list"

definition identificador_de :: "cliente \<Rightarrow> string" where
  "identificador_de c =
     (case pessoa c of PessoaFisica nome nasc cpf \<Rightarrow> cpf | PessoaJuridica razao cnpj \<Rightarrow> cnpj)"

text \<open>\<open>filtrar_cliente(identificador, clientes)\<close>: the first client whose \<open>cpf\<close>
  (if it has one) or \<open>cnpj\<close> (if it has one) is the identifier.\<close>

fun filtrar_cliente :: "string \<Rightarrow> cliente list \<Rightarrow> cliente option" where
  "filtrar_cliente i [] = None"
| "filtrar_cliente i (c # cs) =
     (case pessoa c of
        PessoaFisica nome nasc cpf \<Rightarrow> if cpf = i then Some c else filtrar_cliente i cs
      | PessoaJuridica razao cnpj \<Rightarrow> if cnpj = i then Some c else filtrar_cliente i cs)"

text \<open>
  The object that \<open>filtrar_cliente\<close> returns is the one stored in the list, so a
  mutation of it is seen through the list: \<open>modificar_cliente i f\<close> applies \<open>f\<close> to the
  first client that matches \<open>i\<close>, in place.
\<close>

fun modificar_cliente :: "string \<Rightarrow> (cliente \<Rightarrow> cliente) \<Rightarrow> cliente list \<Rightarrow> cliente list" where
  "modificar_cliente i f [] = []"
| "modificar_cliente i f (c # cs) =
     (case pessoa c of
        PessoaFisica nome nasc cpf \<Rightarrow>
          if cpf = i then f c # cs else c # modificar_cliente i f cs
      | PessoaJuridica razao cnpj \<Rightarrow>
          if cnpj = i then f c # cs else c # modificar_cliente i f cs)"

text \<open>\<open>Banco\<close>: the state is the list \<open>_clientes\<close>.\<close>

definition Banco_adicionar_cliente :: "cliente list \<Rightarrow> cliente \<Rightarrow> cliente list" where
  "Banco_adicionar_cliente clientes c = clientes @ [c]"

definition listar_contas :: "cliente list \<Rightarrow> conta list" where
  "listar_contas clientes = concat (map contas clientes)"

text \<open>
  \<open>cadastrar_cliente(clientes, identificador)\<close>. The answers to the prompts are
  parameters: the kind of person (the prompt loops until it is F or J), the identifier,
  the name (or legal name), the birth date and the address as it was collected. An
  exception while the address is collected leaves the function before the append.
\<close>

datatype tipo_pessoa = Fisica | Juridica

datatype resultado_cadastro = Cadastrado | JaCadastrado

record dados_cadastro =
  dc_nome :: string
  dc_data_nascimento :: string
  dc_endereco :: "string list"
  dc_numero :: string
  dc_cep :: string

definition cadastrar_cliente ::
  "cliente list \<Rightarrow> tipo_pessoa \<Rightarrow> string \<Rightarrow> dados_cadastro \<Rightarrow> resultado_cadastro \<times> cliente list" where
  "cadastrar_cliente clientes tp i d =
     (case tp of
        Fisica \<Rightarrow>
          if filtrar_cliente i clientes \<noteq> None then (JaCadastrado, clientes)
          else (Cadastrado,
                clientes @ [\<lparr>pessoa = PessoaFisica (dc_nome d) (dc_data_nascimento d) i,
                              endereco = dc_endereco d, numero = dc_numero d, cep = dc_cep d,
                              contas = []\<rparr>])
      | Juridica \<Rightarrow>
          if filtrar_cliente i clientes \<noteq> None then (JaCadastrado, clientes)
          else (Cadastrado,
                clientes @ [\<lparr>pessoa = PessoaJuridica (dc_nome d) i,
                              endereco = dc_endereco d, numero = dc_numero d, cep = dc_cep d,
                              contas = []\<rparr>]))"

fun cadastrar_seq ::
  "cliente list \<Rightarrow> (tipo_pessoa \<times> string \<times> dados_cadastro) list \<Rightarrow> cliente list" where
  "cadastrar_seq clientes [] = clientes"
| "cadastrar_seq clientes ((tp, i, d) # rs) =
     cadastrar_seq (snd (cadastrar_cliente clientes tp i d)) rs"

text \<open>
  Account numbers: the class attribute \<open>contador_contas\<close> maps the account type to
  \<open>[prefixo, sufixo]\<close>. \<open>None\<close> is the KeyError, respectively the ValueError, of a type
  that is not a key.
\<close>

type_synonym contador = "string \<rightharpoonup> int \<times> int"

definition contador_contas :: contador where
  "contador_contas = [''corrente'' \<mapsto> (1234, 0), ''poupanca'' \<mapsto> (4321, 0)]"

definition gerar_numero_conta :: "contador \<Rightarrow> string \<Rightarrow> ((int \<times> int) \<times> contador) option" where
  "gerar_numero_conta cont tipo_conta =
     (case cont tipo_conta of
        None \<Rightarrow> None
      | Some (prefixo, sufixo) \<Rightarrow>
          Some ((prefixo, sufixo), cont(tipo_conta \<mapsto> (prefixo, sufixo + 1))))"

definition ContaBancaria_criar_nova_conta ::
  "contador \<Rightarrow> string \<Rightarrow> string \<Rightarrow> (conta \<times> contador) option" where
  "ContaBancaria_criar_nova_conta cont cli tipo_conta =
     (if cont tipo_conta = None then None
      else (case gerar_numero_conta cont tipo_conta of
              None \<Rightarrow> None
            | Some (num, cont') \<Rightarrow>
                (let c = (if tipo_conta = ''corrente''
                          then ContaBancaria_init cli (ContaCorrente (f64 500) 3)
                          else ContaBancaria_init cli (ContaPoupanca (f64 100)))
                 in Some (c\<lparr>numero_conta := Some num\<rparr>, cont'))))"

text \<open>
  The \<open>while True\<close> loop of the workflow \<open>criar_nova_conta\<close> for a savings account, over
  the successive amounts typed at the prompt. \<open>None\<close> is the loop that does not end: the
  amounts run out before one is accepted, or the branch for \<open>numero_deposito \<noteq> 0\<close> is
  entered, which reads nothing and never leaves the loop with an account.
\<close>

fun deposito_inicial :: "conta \<Rightarrow> float64 list \<Rightarrow> conta option" where
  "deposito_inicial c [] = None"
| "deposito_inicial c (v # vs) =
     (if numero_deposito c = 0 then
        (if v \<ge> f64 100 then
           (let (sucesso, c') = depositar c v
            in if sucesso = Sucesso then Some c' else deposito_inicial c' vs)
         else deposito_inicial c vs)
      else None)"

text \<open>
  The workflow \<open>criar_nova_conta(clientes, contas)\<close>: the identifier typed, the account
  type chosen (\<open>_selecionar_tipo_conta\<close> returns \<open>"corrente"\<close> or \<open>"poupanca"\<close>) and the
  amounts typed. The result is the returned bool, the clients and the counter.
\<close>

definition criar_nova_conta ::
  "cliente list \<Rightarrow> contador \<Rightarrow> string \<Rightarrow> string \<Rightarrow> float64 list
     \<Rightarrow> (bool \<times> cliente list \<times> contador) option" where
  "criar_nova_conta clientes cont i tipo_conta vs =
     (case filtrar_cliente i clientes of
        None \<Rightarrow> Some (False, clientes, cont)
      | Some cli \<Rightarrow>
          (case ContaBancaria_criar_nova_conta cont (identificador_de cli) tipo_conta of
             None \<Rightarrow> None
           | Some (c, cont') \<Rightarrow>
               (case (if tipo_conta = ''poupanca'' then deposito_inicial c vs else Some c) of
                  None \<Rightarrow> None
                | Some c' \<Rightarrow>
                    Some (True,
                          modificar_cliente i (\<lambda>x. x\<lparr>contas := contas x @ [c']\<rparr>) clientes,
                          cont'))))"

text \<open>
  \<open>excluir_cliente(clientes, contas)\<close>, called with \<open>banco.listar_contas()\<close> as
  \<open>contas\<close>. The loop \<open>for conta in cliente.contas[:]\<close> removes each account of the copy
  from both lists; \<open>None\<close> is the ValueError of \<open>list.remove\<close> on an absent element.
\<close>

fun excluir_contas :: "conta list \<Rightarrow> conta list \<Rightarrow> conta list \<Rightarrow> (conta list \<times> conta list) option" where
  "excluir_contas [] todas do_cliente = Some (todas, do_cliente)"
| "excluir_contas (c # copia) todas do_cliente =
     (if c \<in> set todas \<and> c \<in> set do_cliente
      then excluir_contas copia (remove1 c todas) (remove1 c do_cliente)
      else None)"

datatype resultado_exclusao =
    ClienteNaoEncontrado
  | CanceladaContasAtivas
  | ClienteExcluido
  | ExclusaoCancelada
  | SemMensagem
  | ExcecaoTypeError

text \<open>
  The two answers are \<open>True\<close> for "s": \<open>conf_contas\<close> to "Deseja excluir todas as contas
  do cliente?" (asked only when the client has accounts) and \<open>conf_cliente\<close> to "Tem
  certeza que deseja excluir o cliente?".
\<close>

definition excluir_cliente ::
  "cliente list \<Rightarrow> conta list \<Rightarrow> string \<Rightarrow> bool \<Rightarrow> bool
     \<Rightarrow> (resultado_exclusao \<times> cliente list \<times> conta list) option" where
  "excluir_cliente clientes todas i conf_contas conf_cliente =
     (case filtrar_cliente i clientes of
        None \<Rightarrow> Some (ClienteNaoEncontrado, clientes, todas)
      | Some cli \<Rightarrow>
          if contas cli \<noteq> [] then
            (if conf_contas then
               (case excluir_contas (contas cli) todas (contas cli) of
                  None \<Rightarrow> None
                | Some (todas', restantes) \<Rightarrow>
                    (let cli' = cli\<lparr>contas := restantes\<rparr>;
                         clientes' = modificar_cliente i (\<lambda>x. x\<lparr>contas := restantes\<rparr>) clientes
                     in if conf_cliente
                        then Some (ClienteExcluido, remove1 cli' clientes', todas')
                        else Some (ExclusaoCancelada, clientes', todas')))
             else Some (CanceladaContasAtivas, clientes, todas))
          else (if conf_cliente
                then Some (ClienteExcluido, remove1 cli clientes, todas)
                else Some (ExclusaoCancelada, clientes, todas)))"

section \<open>The procedural program\<close>

text \<open>
  Source: \<^verbatim>\<open>src/conta_bancaria.py\<close>. One object of class \<open>ContaBancaria\<close> is the
  whole bank: it holds the ceiling \<open>limite\<close>, the cap \<open>limite_saques\<close>, the list of
  clients and the list of accounts; clients and accounts are dictionaries. An account's
  \<open>"extrato"\<close> is a list of formatted lines, kept here as kind and amount; its key
  \<open>"saques_diarios"\<close> is absent until the first withdrawal (\<open>None\<close>). Its
  \<open>"cliente"\<close> is the client's dictionary, or Python's \<open>None\<close>: \<open>criar_conta\<close>
  stores \<open>self.filtrar_cliente(cpf)\<close> after the nested \<open>cadastrar_cliente()\<close>, which
  asks for a CPF again and may register another one or none.
\<close>

record cliente_v1 =
  v1_nome :: string
  v1_data_nascimento :: string
  v1_cpf :: string
  v1_endereco :: "string list"

record conta_v1 =
  v1_agencia :: string
  v1_numero_conta :: int
  v1_cliente :: "cliente_v1 option"
  v1_tipo_conta :: string
  v1_saldo :: float64
  v1_extrato :: "transacao list"
  v1_saques_diarios :: "int option"

record banco_v1 =
  v1_limite :: float64
  v1_limite_saques :: int
  v1_contas :: "conta_v1 list"
  v1_clientes :: "cliente_v1 list"

definition v1_get_saques_diarios :: "conta_v1 \<Rightarrow> int" where
  "v1_get_saques_diarios c = (case v1_saques_diarios c of None \<Rightarrow> 0 | Some n \<Rightarrow> n)"

text \<open>
  \<open>ContaBancaria.sacar(valor=v)\<close> and \<open>ContaBancaria.depositar(v)\<close> once
  \<open>buscar_conta\<close> has found the account \<open>c\<close> of the number typed (a number that is not
  found prints "Conta nao encontrada" and changes nothing).
\<close>

definition v1_sacar :: "banco_v1 \<Rightarrow> conta_v1 \<Rightarrow> float64 \<Rightarrow> mensagem \<times> conta_v1" where
  "v1_sacar b c v =
     (if v \<le> 0 then (ValorInvalido, c)
      else if v > v1_saldo c then (SaldoInsuficiente, c)
      else if v > v1_limite b then (LimiteExcedido, c)
      else if v1_get_saques_diarios c \<ge> v1_limite_saques b then (SaquesExcedidos, c)
      else (Sucesso,
            c\<lparr>v1_saldo := v1_saldo c - v,
              v1_extrato := v1_extrato c @ [\<lparr>tipo = Saque, valor = v\<rparr>],
              v1_saques_diarios := Some (v1_get_saques_diarios c + 1)\<rparr>))"

definition v1_depositar :: "banco_v1 \<Rightarrow> conta_v1 \<Rightarrow> float64 \<Rightarrow> mensagem \<times> conta_v1" where
  "v1_depositar b c v =
     (if v \<le> 0 then (ValorInvalido, c)
      else (Sucesso,
            c\<lparr>v1_saldo := v1_saldo c + v,
              v1_extrato := v1_extrato c @ [\<lparr>tipo = Deposito, valor = v\<rparr>]\<rparr>))"

text \<open>A sequence of withdrawals and deposits on one account of the bank \<open>b\<close>.\<close>

fun v1_operar_seq :: "banco_v1 \<Rightarrow> conta_v1 \<Rightarrow> (tipo_transacao \<times> float64) list \<Rightarrow> conta_v1" where
  "v1_operar_seq b c [] = c"
| "v1_operar_seq b c ((k, v) # ps) =
     v1_operar_seq b
       (case k of Saque \<Rightarrow> snd (v1_sacar b c v) | Deposito \<Rightarrow> snd (v1_depositar b c v)) ps"

fun v1_filtrar_cliente :: "string \<Rightarrow> cliente_v1 list \<Rightarrow> cliente_v1 option" where
  "v1_filtrar_cliente cpf [] = None"
| "v1_filtrar_cliente cpf (c # cs) =
     (if v1_cpf c = cpf then Some c else v1_filtrar_cliente cpf cs)"

text \<open>
  The comprehension \<open>[conta for conta in self.contas if conta["cliente"]["cpf"] != cpf]\<close>
  of \<open>excluir_cliente\<close>. \<open>None\<close> is the TypeError that \<open>conta["cliente"]["cpf"]\<close>
  raises on an account whose \<open>"cliente"\<close> is \<open>None\<close>.
\<close>

fun v1_contas_de_outros :: "string \<Rightarrow> conta_v1 list \<Rightarrow> conta_v1 list option" where
  "v1_contas_de_outros cpf [] = Some []"
| "v1_contas_de_outros cpf (c # cs) =
     (case v1_cliente c of
        None \<Rightarrow> None
      | Some cl \<Rightarrow>
          (case v1_contas_de_outros cpf cs of
             None \<Rightarrow> None
           | Some r \<Rightarrow> Some (if v1_cpf cl \<noteq> cpf then c # r else r)))"

text \<open>
  \<open>ContaBancaria.excluir_cliente()\<close>: the CPF typed and whether the one answer is
  "s". The client is removed first (\<open>self.clientes.remove(cliente)\<close>) and
  \<open>self.contas\<close> is assigned afterwards; when the comprehension raises, the exception
  leaves the method with the client removed and the accounts as they were
  (\<open>ExcecaoTypeError\<close>).
\<close>

definition v1_excluir_cliente :: "banco_v1 \<Rightarrow> string \<Rightarrow> bool \<Rightarrow> resultado_exclusao \<times> banco_v1" where
  "v1_excluir_cliente b cpf opcao_s =
     (case v1_filtrar_cliente cpf (v1_clientes b) of
        None \<Rightarrow> (ClienteNaoEncontrado, b)
      | Some cli \<Rightarrow>
          if opcao_s
          then (let b' = b\<lparr>v1_clientes := remove1 cli (v1_clientes b)\<rparr>
                in case v1_contas_de_outros cpf (v1_contas b') of
                     None \<Rightarrow> (ExcecaoTypeError, b')
                   | Some restantes \<Rightarrow> (ClienteExcluido, b'\<lparr>v1_contas := restantes\<rparr>))
          else (SemMensagem, b))"

section \<open>Example states\<close>

text \<open>
  States that the programs reach, used to run the definitions. \<open>conta_corrente_nova\<close>
  is the first checking account that \<open>ContaBancaria.criar_nova_conta\<close> builds, with
  the default ceiling 500 and cap 3; \<open>conta_no_teto\<close> is that account after a deposit
  of 400 and three withdrawals of 100, \<open>conta_mil\<close> after two deposits of 500,
  \<open>conta_cenario_a\<close> after a deposit of 500 and two withdrawals of 200;
  \<open>poupanca_mil\<close> is a savings account after a deposit of 1900 and three withdrawals
  of 300. \<open>banco_v1_exemplo\<close> is the bank of the procedural program with its defaults
  and \<open>conta_v1_nova\<close> an account of type "corrente" as \<open>criar_conta\<close> builds it.
  \<open>maria\<close> is a client as \<open>cadastrar_cliente\<close> registers her from \<open>dados_maria\<close>,
  \<open>maria_titular\<close> the same client owning two accounts, and \<open>banco_v1_maria\<close> the
  procedural bank with one client, \<open>maria_v1\<close>, and her two accounts. The savings
  account \<open>poupanca_grande\<close> has had one deposit of \<open>10^16\<close>.
\<close>

definition conta_corrente_nova :: conta where
  "conta_corrente_nova =
     (ContaBancaria_init ''12345678900'' (ContaCorrente (f64 500) 3))\<lparr>numero_conta := Some (1234, 0)\<rparr>"

definition conta_no_teto :: conta where
  "conta_no_teto =
     snd (registrar_seq conta_corrente_nova
            [(Deposito, f64 400), (Saque, f64 100), (Saque, f64 100), (Saque, f64 100)])"

definition conta_mil :: conta where
  "conta_mil = snd (registrar_seq conta_corrente_nova [(Deposito, f64 500), (Deposito, f64 500)])"

definition poupanca_nova :: conta where
  "poupanca_nova =
     (ContaBancaria_init ''12345678900'' (ContaPoupanca (f64 100)))\<lparr>numero_conta := Some (4321, 0)\<rparr>"

definition poupanca_grande :: conta where
  "poupanca_grande = snd (registrar_seq poupanca_nova [(Deposito, f64 10000000000000000)])"

definition poupanca_mil :: conta where
  "poupanca_mil =
     snd (registrar_seq poupanca_nova
            [(Deposito, f64 1900), (Saque, f64 300), (Saque, f64 300), (Saque, f64 300)])"

definition banco_v1_exemplo :: banco_v1 where
  "banco_v1_exemplo = \<lparr>v1_limite = f64 500, v1_limite_saques = 3, v1_contas = [], v1_clientes = []\<rparr>"

definition maria_v1 :: cliente_v1 where
  "maria_v1 = \<lparr>v1_nome = ''Maria'', v1_data_nascimento = ''10/08/1990'',
                v1_cpf = ''12345678900'', v1_endereco = []\<rparr>"

definition conta_v1_nova :: conta_v1 where
  "conta_v1_nova =
     \<lparr>v1_agencia = ''0001'', v1_numero_conta = 1000,
      v1_cliente = Some maria_v1,
      v1_tipo_conta = ''corrente'', v1_saldo = 0, v1_extrato = [], v1_saques_diarios = None\<rparr>"

definition conta_v1_cem :: conta_v1 where
  "conta_v1_cem = v1_operar_seq banco_v1_exemplo conta_v1_nova [(Deposito, f64 100)]"

definition conta_v1_no_teto :: conta_v1 where
  "conta_v1_no_teto =
     v1_operar_seq banco_v1_exemplo conta_v1_nova
       [(Deposito, f64 400), (Saque, f64 100), (Saque, f64 100), (Saque, f64 100)]"

definition conta_cenario_a :: conta where
  "conta_cenario_a =
     snd (registrar_seq conta_corrente_nova [(Deposito, f64 500), (Saque, f64 200), (Saque, f64 200)])"

definition conta_v1_mil :: conta_v1 where
  "conta_v1_mil =
     v1_operar_seq banco_v1_exemplo conta_v1_nova [(Deposito, f64 500), (Deposito, f64 500)]"

definition maria :: cliente where
  "maria = \<lparr>pessoa = PessoaFisica ''Maria Oliveira'' ''10/08/1990'' ''12345678900'',
            endereco = [''Praca da Se'', ''120'', ''Se''], numero = ''120'', cep = ''01001000'',
            contas = []\<rparr>"

definition dados_maria :: dados_cadastro where
  "dados_maria = \<lparr>dc_nome = ''Maria Oliveira'', dc_data_nascimento = ''10/08/1990'',
     dc_endereco = [''Praca da Se'', ''120'', ''Se''], dc_numero = ''120'', dc_cep = ''01001000''\<rparr>"

definition mesmo_cpf :: cliente where
  "mesmo_cpf = \<lparr>pessoa = PessoaFisica ''Mario Oliveira'' ''01/02/1980'' ''12345678900'',
     endereco = [''Rua A'', ''10'', ''Centro''], numero = ''10'', cep = ''01001000'', contas = []\<rparr>"

definition maria_titular :: cliente where
  "maria_titular = maria\<lparr>contas := [conta_mil, poupanca_mil]\<rparr>"

definition banco_v1_maria :: banco_v1 where
  "banco_v1_maria =
     banco_v1_exemplo\<lparr>v1_contas := [conta_v1_cem, conta_v1_mil\<lparr>v1_numero_conta := 1001\<rparr>],
                      v1_clientes := [maria_v1]\<rparr>"

text \<open>\<open>banco_v1_sem_titular\<close> is \<open>banco_v1_maria\<close> with one more account, whose
  \<open>"cliente"\<close> is \<open>None\<close>.\<close>

definition banco_v1_sem_titular :: banco_v1 where
  "banco_v1_sem_titular =
     banco_v1_maria\<lparr>v1_contas := v1_contas banco_v1_maria
        @ [conta_v1_nova\<lparr>v1_numero_conta := 1002, v1_cliente := None\<rparr>]\<rparr>"

section \<open>Properties of binary64 arithmetic\<close>

lemma representavel_zero: "representavel 0"
  unfolding representavel_def by (rule exI [of _ 0], rule exI [of _ 0]) simp

lemma arredondar_inteiro_of_int: "arredondar_inteiro (of_int k) = k"
  by (simp add: arredondar_inteiro_def)

lemma valor_real_Finito_de: "representavel x \<Longrightarrow> valor_real (Finito_de x) = x"
  by (simp add: Finito_de_inverse)

lemma representavel_valor_real: "representavel (valor_real a)"
  using valor_real [of a] by simp

lemma Finito_de_eq_iff:
  "representavel x \<Longrightarrow> representavel y \<Longrightarrow> Finito_de x = Finito_de y \<longleftrightarrow> x = y"
  by (simp add: Finito_de_inject)

lemma representavel_of_int: "\<bar>n\<bar> < 2 ^ 53 \<Longrightarrow> representavel (of_int n)"
  unfolding representavel_def by (rule exI [of _ n], rule exI [of _ 0]) simp

lemma representavel_abs_less:
  assumes "representavel x"
  shows "\<bar>x\<bar> < 2 ^ 1024"
proof -
  obtain m e :: int where x: "x = of_int m * 2 powr of_int e" and m: "\<bar>m\<bar> < 2 ^ 53"
    and e: "- 1074 \<le> e" "e \<le> 971"
    using assms unfolding representavel_def by blast
  have "\<bar>x\<bar> = \<bar>real_of_int m\<bar> * 2 powr of_int e" by (simp add: x abs_mult)
  also have "\<dots> < 2 ^ 53 * 2 powr of_int e"
  proof -
    have "\<bar>real_of_int m\<bar> < 2 ^ 53" using m by (metis of_int_abs of_int_less_numeral_power_cancel_iff)
    then show ?thesis by simp
  qed
  also have "\<dots> \<le> 2 ^ 53 * 2 powr real_of_int 971"
    using e by (intro mult_left_mono powr_mono) simp_all
  also have "\<dots> = 2 ^ 53 * (2::real) ^ 971"
    using powr_realpow [of "2::real" 971] by simp
  also have "\<dots> = 2 ^ (53 + 971)"
    by (rule power_add [symmetric])
  finally show ?thesis by simp
qed

lemma f64_representavel:
  assumes "representavel x"
  shows "f64 x = Finito (Finito_de x)"
proof (cases "x = 0")
  case True
  then show ?thesis by (simp add: f64_def)
next
  case False
  obtain m e :: int where x: "x = of_int m * 2 powr of_int e" and m: "\<bar>m\<bar> < 2 ^ 53"
    and e: "- 1074 \<le> e" "e \<le> 971"
    using assms unfolding representavel_def by blast
  have m0: "m \<noteq> 0" using False x by auto
  have ax: "\<bar>x\<bar> = real_of_int \<bar>m\<bar> * 2 powr of_int e" by (simp add: x abs_mult)
  have "real_of_int \<bar>m\<bar> < 2 powr 53"
    using m by (simp add: powr_numeral)
  then have "\<bar>x\<bar> < 2 powr 53 * 2 powr of_int e"
    unfolding ax by simp
  then have lt: "\<bar>x\<bar> < 2 powr (53 + of_int e)" by (simp add: powr_add)
  have "log 2 \<bar>x\<bar> < 53 + of_int e"
    using lt False by (simp add: log_less_iff)
  then have "\<lfloor>log 2 \<bar>x\<bar>\<rfloor> < 53 + e" by linarith
  then have E: "expoente x \<le> e" using e by (simp add: expoente_def)
  define d where "d = nat (e - expoente x)"
  define p where "p = (2::real) powr of_int (expoente x)"
  have p0: "0 < p" by (simp add: p_def)
  have de: "e = expoente x + int d" using E by (simp add: d_def)
  have "(2::real) powr of_int e = 2 powr (of_int (expoente x) + of_nat d)"
    using de by simp
  also have "\<dots> = p * 2 ^ d"
    by (simp add: powr_add powr_realpow p_def)
  finally have "x = of_int m * (p * 2 ^ d)" using x by simp
  then have q: "x / p = of_int (m * 2 ^ d)" using p0 by simp
  have "of_int (arredondar_inteiro (x / p)) * p = (x / p) * p"
    unfolding q arredondar_inteiro_of_int ..
  then have y: "of_int (arredondar_inteiro (x / p)) * p = x" using p0 by simp
  have "\<bar>x\<bar> < 2 ^ 1024" using assms by (rule representavel_abs_less)
  then show ?thesis using False y by (simp add: f64_def Let_def flip: p_def)
qed

lemma f64_regra:
  assumes "2 ^ k \<le> \<bar>x\<bar>" and "\<bar>x\<bar> < 2 ^ Suc k" and "52 \<le> k"
    and "y = of_int (arredondar_inteiro (x / 2 ^ (k - 52))) * 2 ^ (k - 52)"
  shows "f64 x = (if 2 ^ 1024 \<le> \<bar>y\<bar> then (if 0 < y then Inf_pos else Inf_neg)
                  else Finito (Finito_de y))"
proof -
  have x0: "x \<noteq> 0"
  proof
    assume "x = 0"
    then have "(2::real) ^ k \<le> 0" using assms(1) by simp
    then show False using zero_less_power [of "2::real" k] by linarith
  qed
  have pos: "0 < \<bar>x\<bar>" using x0 by simp
  have "2 powr (of_int (int k)) \<le> \<bar>x\<bar> \<and> \<bar>x\<bar> < 2 powr (of_int (int k + 1))"
    using assms(1,2) by (simp add: powr_realpow powr_add)
  then have "\<lfloor>log 2 \<bar>x\<bar>\<rfloor> = int k"
    using floor_log_eq_powr_iff [OF pos, of 2 "int k"] by simp
  then have E: "expoente x = int (k - 52)" using assms(3) by (simp add: expoente_def)
  have p: "(2::real) powr of_int (expoente x) = 2 ^ (k - 52)"
    by (simp add: E powr_realpow)
  show ?thesis using x0 by (simp add: f64_def Let_def p assms(4))
qed

text \<open>
  Rounding stays inside the format: the rounded real is a binary64 value whenever it is
  below \<open>2^1024\<close> in magnitude, so a finite result of \<open>f64\<close> is that real.
\<close>

lemma arredondar_inteiro_casos:
  "arredondar_inteiro q = \<lfloor>q\<rfloor>
   \<or> (arredondar_inteiro q = \<lfloor>q\<rfloor> + 1 \<and> of_int \<lfloor>q\<rfloor> + 1 / 2 \<le> q)"
  by (auto simp: arredondar_inteiro_def Let_def)

lemma arredondar_inteiro_abs_le:
  assumes "\<bar>q\<bar> < of_int K"
  shows "\<bar>arredondar_inteiro q\<bar> \<le> K"
proof -
  have a: "\<lfloor>q\<rfloor> < K" using assms by (simp add: floor_less_iff)
  have "of_int (- K) \<le> q" using assms by simp
  then have b: "- K \<le> \<lfloor>q\<rfloor>" by (simp only: le_floor_iff)
  show ?thesis using arredondar_inteiro_casos [of q] a b by auto
qed

lemma arredondar_inteiro_abs_ge:
  assumes "of_int K \<le> \<bar>q\<bar>"
  shows "K \<le> \<bar>arredondar_inteiro q\<bar>"
proof (cases "0 \<le> q")
  case True
  then have "of_int K \<le> q" using assms by simp
  then have "K \<le> \<lfloor>q\<rfloor>" by (simp only: le_floor_iff)
  then show ?thesis using arredondar_inteiro_casos [of q] by auto
next
  case False
  then have q: "q \<le> of_int (- K)" using assms by simp
  have f: "of_int \<lfloor>q\<rfloor> \<le> q" by simp
  have a: "\<lfloor>q\<rfloor> \<le> - K"
  proof -
    have "real_of_int \<lfloor>q\<rfloor> \<le> of_int (- K)" using f q by linarith
    then show ?thesis by (simp only: of_int_le_iff)
  qed
  have b: "\<lfloor>q\<rfloor> + 1 \<le> - K" if "of_int \<lfloor>q\<rfloor> + 1 / 2 \<le> q"
  proof -
    have "real_of_int \<lfloor>q\<rfloor> < of_int (- K)" using that q by linarith
    then have "\<lfloor>q\<rfloor> < - K" by (simp only: of_int_less_iff)
    then show ?thesis by simp
  qed
  show ?thesis using arredondar_inteiro_casos [of q] a b by auto
qed

lemma f64_bem_formado:
  assumes x0: "x \<noteq> 0"
    and y: "y = of_int (arredondar_inteiro (x / 2 powr of_int (expoente x))) * 2 powr of_int (expoente x)"
    and lim: "\<bar>y\<bar> < 2 ^ 1024"
  shows "representavel y"
proof -
  define E where "E = expoente x"
  define p where "p = (2::real) powr of_int E"
  define n where "n = arredondar_inteiro (x / p)"
  define L where "L = \<lfloor>log 2 \<bar>x\<bar>\<rfloor>"
  have p0: "0 < p" by (simp add: p_def)
  have yn: "y = of_int n * p" by (simp add: y n_def p_def E_def)
  have ay: "\<bar>y\<bar> = of_int \<bar>n\<bar> * p" using p0 by (simp add: yn abs_mult)
  have pos: "0 < \<bar>x\<bar>" using x0 by simp
  have L: "2 powr of_int L \<le> \<bar>x\<bar>" "\<bar>x\<bar> < 2 powr of_int (L + 1)"
    using floor_log_eq_powr_iff [OF pos, of 2 L] by (simp_all add: L_def)
  have E1: "L - 52 \<le> E" and E2: "- 1074 \<le> E" by (simp_all add: E_def L_def expoente_def)
  have E3: "E = L - 52" if "971 < E" using that by (simp add: E_def L_def expoente_def)
  have "\<bar>x\<bar> < 2 powr of_int (E + 53)"
  proof -
    have "(2::real) powr of_int (L + 1) \<le> 2 powr of_int (E + 53)"
      using E1 by (intro powr_mono) simp_all
    then show ?thesis using L(2) by linarith
  qed
  also have "\<dots> = 2 ^ 53 * p"
    by (simp add: p_def powr_add powr_numeral)
  finally have "\<bar>x\<bar> / p < 2 ^ 53" using p0 by (simp add: pos_divide_less_eq)
  then have "\<bar>x / p\<bar> < of_int (2 ^ 53)" using p0 by (simp add: abs_divide)
  then have n_le: "\<bar>n\<bar> \<le> 2 ^ 53" unfolding n_def by (rule arredondar_inteiro_abs_le)
  have E_le: "E \<le> 971"
  proof (rule ccontr)
    assume "\<not> E \<le> 971"
    then have big: "971 < E" by simp
    then have EL: "L = E + 52" using E3 by simp
    have "2 ^ 52 * p = 2 powr of_int (E + 52)"
      by (simp add: p_def powr_add powr_numeral)
    also have "\<dots> \<le> \<bar>x\<bar>" using L(1) EL by simp
    finally have "2 ^ 52 \<le> \<bar>x\<bar> / p" using p0 by (simp add: pos_le_divide_eq)
    then have "of_int (2 ^ 52) \<le> \<bar>x / p\<bar>" using p0 by (simp add: abs_divide)
    then have n_ge: "2 ^ 52 \<le> \<bar>n\<bar>" unfolding n_def by (rule arredondar_inteiro_abs_ge)
    have "(2::real) powr of_int 972 \<le> p"
      unfolding p_def using big by (intro powr_mono) simp_all
    then have p_ge: "(2::real) ^ 972 \<le> p"
      using powr_realpow [of "2::real" 972] by simp
    have "(2::real) ^ 52 \<le> of_int \<bar>n\<bar>"
      using n_ge by (metis of_int_le_iff of_int_numeral of_int_power)
    then have "(2::real) ^ 52 * 2 ^ 972 \<le> of_int \<bar>n\<bar> * p"
      using p_ge by (intro mult_mono) simp_all
    moreover have "(2::real) ^ 52 * 2 ^ 972 = 2 ^ 1024"
      by (simp flip: power_add)
    ultimately show False using lim ay by linarith
  qed
  show ?thesis
  proof (cases "\<bar>n\<bar> < 2 ^ 53")
    case True
    then show ?thesis
      unfolding representavel_def
      using E2 E_le yn by (intro exI [of _ n] exI [of _ E]) (simp add: p_def)
  next
    case False
    then have nn: "\<bar>n\<bar> = 2 ^ 53" using n_le by simp
    have "E < 971"
    proof (rule ccontr)
      assume "\<not> E < 971"
      then have "E = 971" using E_le by simp
      then have "p = 2 ^ 971" using powr_realpow [of "2::real" 971] by (simp add: p_def)
      then have "\<bar>y\<bar> = 2 ^ 53 * 2 ^ 971" by (simp add: ay nn)
      also have "\<dots> = (2::real) ^ 1024" by (simp flip: power_add)
      finally show False using lim by simp
    qed
    define m :: int where "m = (if 0 \<le> n then 2 ^ 52 else - (2 ^ 52))"
    have n2: "n = 2 * m" using nn by (auto simp: m_def abs_if split: if_splits)
    have "2 powr of_int (E + 1) = 2 * p" by (simp add: p_def powr_add)
    then have "y = of_int m * 2 powr of_int (E + 1)" by (simp add: yn n2)
    moreover have "\<bar>m\<bar> < 2 ^ 53" by (simp add: m_def)
    ultimately show ?thesis
      unfolding representavel_def
      using E2 \<open>E < 971\<close> by (intro exI [of _ m] exI [of _ "E + 1"]) simp
  qed
qed

lemma f64_valor:
  "f64 x = Finito a \<Longrightarrow>
     valor_real a = (if x = 0 then 0
        else of_int (arredondar_inteiro (x / 2 powr of_int (expoente x))) * 2 powr of_int (expoente x))"
  using f64_bem_formado [OF _ refl, of x]
  by (auto simp: f64_def Let_def valor_real_Finito_de representavel_zero not_le
        split: if_splits)

lemma menor_igual_nao_menor: "(a :: float64) \<le> b \<Longrightarrow> \<not> b < a"
  by (cases a; cases b) (simp_all add: less_float64_def less_eq_float64_def)

lemma menor_nao_menor_igual: "(a :: float64) < b \<Longrightarrow> \<not> b \<le> a"
  by (cases a; cases b) (simp_all add: less_float64_def less_eq_float64_def)

lemma menor_entao: "(a :: float64) < b \<Longrightarrow> (b \<le> a) = False"
  by (simp add: menor_nao_menor_igual)

lemma menor_igual_entao: "(a :: float64) \<le> b \<Longrightarrow> (b < a) = False"
  by (simp add: menor_igual_nao_menor)

lemmas ordem_f64 = menor_entao menor_igual_entao

lemma zero_mais: "0 + (v :: float64) = v"
proof (cases v)
  case (Finito x)
  have "f64 (valor_real x) = Finito (Finito_de (valor_real x))"
    using representavel_valor_real by (rule f64_representavel)
  then show ?thesis
    by (simp add: Finito plus_float64_def zero_float64_def valor_real_Finito_de
          representavel_zero valor_real_inverse)
qed (simp_all add: plus_float64_def zero_float64_def)

lemma representavel_numeral: "numeral n < (2::int) ^ 53 \<Longrightarrow> representavel (numeral n)"
  using representavel_of_int [of "numeral n"] by simp

lemma representavel_one: "representavel 1"
  using representavel_of_int [of 1] by simp

lemmas avaliar =
  f64_representavel valor_real_Finito_de Finito_de_eq_iff representavel_numeral
  representavel_zero representavel_one
  less_float64_def less_eq_float64_def plus_float64_def minus_float64_def zero_float64_def

lemma representavel_1e16: "representavel 10000000000000000"
  unfolding representavel_def
  by (rule exI [of _ 152587890625], rule exI [of _ 16]) simp

lemma f64_1e16_mais_1: "f64 10000000000000001 = f64 10000000000000000"
proof -
  have "f64 10000000000000001 = Finito (Finito_de 10000000000000000)"
    by (subst f64_regra [where k = 53 and y = 10000000000000000])
       (simp_all add: arredondar_inteiro_def)
  then show ?thesis by (simp add: f64_representavel representavel_1e16)
qed

lemma f64_1e16_menos_1: "f64 9999999999999999 = f64 10000000000000000"
proof -
  have "f64 9999999999999999 = Finito (Finito_de 10000000000000000)"
    by (subst f64_regra [where k = 53 and y = 10000000000000000])
       (simp_all add: arredondar_inteiro_def)
  then show ?thesis by (simp add: f64_representavel representavel_1e16)
qed

lemma cem_positivo: "f64 100 \<le> v \<Longrightarrow> 0 < v"
  by (cases v) (simp_all add: avaliar)

lemma cem_nao_invalido: "f64 100 \<le> v \<Longrightarrow> \<not> v \<le> 0"
  by (cases v) (simp_all add: avaliar)

lemma representavel_99_5: "representavel (199 / 2)"
  unfolding representavel_def
  by (rule exI [of _ 199], rule exI [of _ "- 1"]) (simp add: powr_minus)

text \<open>Whole numbers below \<open>2^53\<close> in magnitude are binary64 values, and their sums and
  differences that stay below \<open>2^53\<close> are exact.\<close>

lemma f64_inteiro: "\<bar>n\<bar> < 2 ^ 53 \<Longrightarrow> f64 (of_int n) = Finito (Finito_de (of_int n))"
  by (simp add: f64_representavel representavel_of_int)

lemma f64_inteiro_soma:
  "\<bar>a\<bar> < 2 ^ 53 \<Longrightarrow> \<bar>b\<bar> < 2 ^ 53 \<Longrightarrow> \<bar>a + b\<bar> < 2 ^ 53 \<Longrightarrow>
     f64 (of_int a) + f64 (of_int b) = f64 (of_int (a + b))"
  by (simp add: f64_inteiro plus_float64_def valor_real_Finito_de representavel_of_int
        flip: of_int_add)

lemma f64_inteiro_diferenca:
  "\<bar>a\<bar> < 2 ^ 53 \<Longrightarrow> \<bar>b\<bar> < 2 ^ 53 \<Longrightarrow> \<bar>a - b\<bar> < 2 ^ 53 \<Longrightarrow>
     f64 (of_int a) - f64 (of_int b) = f64 (of_int (a - b))"
  by (simp add: f64_inteiro minus_float64_def valor_real_Finito_de representavel_of_int
        flip: of_int_diff)

lemma valor_exato_inteiro: "\<bar>n\<bar> < 2 ^ 53 \<Longrightarrow> valor_exato (f64 (of_int n)) = Some (of_int n)"
  by (simp add: f64_inteiro valor_real_Finito_de representavel_of_int)

lemma f64_inteiro_menor_igual:
  "\<bar>a\<bar> < 2 ^ 53 \<Longrightarrow> \<bar>b\<bar> < 2 ^ 53 \<Longrightarrow> f64 (of_int a) \<le> f64 (of_int b) \<longleftrightarrow> a \<le> b"
  by (simp add: f64_inteiro less_eq_float64_def valor_real_Finito_de representavel_of_int)

lemma f64_inteiro_positivo: "\<bar>b\<bar> < 2 ^ 53 \<Longrightarrow> 0 < f64 (of_int b) \<longleftrightarrow> 0 < b"
  by (simp add: f64_inteiro less_float64_def zero_float64_def valor_real_Finito_de
        representavel_of_int representavel_zero)

section \<open>Properties of the transaction registrar\<close>

lemmas defs_conta =
  registrar_def Saque_registrar_def Deposito_registrar_def sacar_def depositar_def
  ContaCorrente_sacar_def ContaBancaria_sacar_def ContaBancaria_depositar_def
  ContaPoupanca_depositar_def adicionar_transacao_def

lemma registrar_efeito:
  "registrar k c v = (None, c)
   \<or> registrar k c v
       = (Some \<lparr>tipo = k, valor = v\<rparr>,
          c\<lparr>saldo := acumular (saldo c) \<lparr>tipo = k, valor = v\<rparr>,
            extrato := extrato c @ [\<lparr>tipo = k, valor = v\<rparr>]\<rparr>)"
  by (cases k; cases "variante c") (simp_all add: defs_conta Let_def acumular_def ordem_f64)

lemma registrar_seq_Cons:
  "snd (registrar_seq c ((k, v) # ps)) = snd (registrar_seq (snd (registrar k c v)) ps)"
  by (simp split: prod.splits)

lemma saldo_acumulado_append:
  "saldo_acumulado (ts @ [t]) = acumular (saldo_acumulado ts) t"
  by (simp add: saldo_acumulado_def)

lemma registrar_acumulado:
  assumes "saldo c = saldo_acumulado (extrato c)"
  shows "saldo (snd (registrar k c v)) = saldo_acumulado (extrato (snd (registrar k c v)))"
  using registrar_efeito [of k c v] assms by (auto simp: saldo_acumulado_append)

lemma registrar_seq_acumulado:
  "saldo c = saldo_acumulado (extrato c) \<Longrightarrow>
     saldo (snd (registrar_seq c ps)) = saldo_acumulado (extrato (snd (registrar_seq c ps)))"
proof (induction ps arbitrary: c)
  case Nil
  then show ?case by simp
next
  case (Cons p ps)
  obtain k v where p: "p = (k, v)" by (cases p)
  show ?case
    using Cons.IH [OF registrar_acumulado [OF Cons.prems, of k v]]
    by (simp only: p registrar_seq_Cons)
qed

lemma soma_extrato_append:
  "soma_extrato (ts @ [t])
     = (case (soma_extrato ts, valor_com_sinal t) of
          (Some s, Some x) \<Rightarrow> Some (s + x)
        | _ \<Rightarrow> None)"
  by (induction ts) (auto split: option.splits)

lemma valor_com_sinal_inteiro:
  "\<bar>n\<bar> < 2 ^ 53 \<Longrightarrow>
     valor_com_sinal \<lparr>tipo = k, valor = f64 (of_int n)\<rparr>
       = Some (case k of Deposito \<Rightarrow> of_int n | Saque \<Rightarrow> - of_int n)"
  by (simp add: valor_com_sinal_def valor_exato_inteiro)

lemma registrar_exato:
  assumes s: "saldo c = f64 (of_int s)"
    and e: "soma_extrato (extrato c) = Some (of_int s)"
    and lim: "\<bar>s\<bar> + \<bar>n\<bar> < 2 ^ 53"
  shows "\<exists>s'. saldo (snd (registrar k c (f64 (of_int n)))) = f64 (of_int s')
              \<and> soma_extrato (extrato (snd (registrar k c (f64 (of_int n))))) = Some (of_int s')
              \<and> \<bar>s'\<bar> \<le> \<bar>s\<bar> + \<bar>n\<bar>"
proof -
  let ?v = "f64 (of_int n)"
  let ?t = "\<lparr>tipo = k, valor = ?v\<rparr>"
  have bs: "\<bar>s\<bar> < 2 ^ 53" and bn: "\<bar>n\<bar> < 2 ^ 53" using lim by linarith+
  consider (falha) "registrar k c ?v = (None, c)"
    | (sucesso) "registrar k c ?v
        = (Some ?t, c\<lparr>saldo := acumular (saldo c) ?t, extrato := extrato c @ [?t]\<rparr>)"
    using registrar_efeito [of k c ?v] by blast
  then show ?thesis
  proof cases
    case falha
    then show ?thesis using s e by (intro exI [of _ s]) simp
  next
    case sucesso
    show ?thesis
    proof (cases k)
      case Deposito
      have b: "\<bar>s + n\<bar> < 2 ^ 53" using lim by linarith
      have "acumular (saldo c) ?t = f64 (of_int (s + n))"
        using f64_inteiro_soma [OF bs bn b] by (simp add: acumular_def Deposito s)
      moreover have "soma_extrato (extrato c @ [?t]) = Some (of_int (s + n))"
        using valor_com_sinal_inteiro [OF bn, of k]
        by (simp add: soma_extrato_append e Deposito)
      ultimately show ?thesis using sucesso by (intro exI [of _ "s + n"]) simp
    next
      case Saque
      have b: "\<bar>s - n\<bar> < 2 ^ 53" using lim by linarith
      have "acumular (saldo c) ?t = f64 (of_int (s - n))"
        using f64_inteiro_diferenca [OF bs bn b] by (simp add: acumular_def Saque s)
      moreover have "soma_extrato (extrato c @ [?t]) = Some (of_int (s - n))"
        using valor_com_sinal_inteiro [OF bn, of k]
        by (simp add: soma_extrato_append e Saque)
      ultimately show ?thesis using sucesso by (intro exI [of _ "s - n"]) simp
    qed
  qed
qed

lemma registrar_seq_exato:
  "saldo c = f64 (of_int s) \<Longrightarrow> soma_extrato (extrato c) = Some (of_int s) \<Longrightarrow>
   \<bar>s\<bar> + sum_list (map (\<lambda>(k, n). \<bar>n\<bar>) ns) < 2 ^ 53 \<Longrightarrow>
     \<exists>s'. saldo (snd (registrar_seq c (map (\<lambda>(k, n). (k, f64 (of_int n))) ns))) = f64 (of_int s')
          \<and> soma_extrato (extrato (snd (registrar_seq c (map (\<lambda>(k, n). (k, f64 (of_int n))) ns))))
              = Some (of_int s')
          \<and> \<bar>s'\<bar> < 2 ^ 53"
proof (induction ns arbitrary: c s)
  case Nil
  then show ?case by (intro exI [of _ s]) simp
next
  case (Cons p ns)
  obtain k n where p: "p = (k, n)" by (cases p)
  have lim: "\<bar>s\<bar> + \<bar>n\<bar> < 2 ^ 53"
  proof -
    have "0 \<le> sum_list (map (\<lambda>(k, n). \<bar>n\<bar>) ns)"
      by (rule sum_list_nonneg) auto
    then show ?thesis using Cons.prems(3) by (simp add: p)
  qed
  obtain s' where s': "saldo (snd (registrar k c (f64 (of_int n)))) = f64 (of_int s')"
      "soma_extrato (extrato (snd (registrar k c (f64 (of_int n))))) = Some (of_int s')"
      "\<bar>s'\<bar> \<le> \<bar>s\<bar> + \<bar>n\<bar>"
    using registrar_exato [OF Cons.prems(1,2) lim, of k] by blast
  have "\<bar>s'\<bar> + sum_list (map (\<lambda>(k, n). \<bar>n\<bar>) ns) < 2 ^ 53"
    using s'(3) Cons.prems(3) by (simp add: p)
  from Cons.IH [OF s'(1,2) this] show ?case
    by (simp only: p list.map prod.case registrar_seq_Cons)
qed

text \<open>
  C1, as amended. For every account (either subclass, any ceiling, cap or minimum
  deposit, any owner) and every sequence of register calls applied to the freshly
  constructed account, the final balance is the final ledger accumulated from zero in
  ledger order in binary64 arithmetic, one addition for each deposit record and one
  subtraction for each withdrawal record. It is the exact sum of the signed amounts when
  every amount requested is a whole number and the absolute values of the amounts total
  less than \<open>2^53\<close>.
\<close>

theorem C1_saldo_acumulado_do_extrato:
  "saldo (snd (registrar_seq (ContaBancaria_init cliente var) ps))
     = saldo_acumulado (extrato (snd (registrar_seq (ContaBancaria_init cliente var) ps)))
   \<and> (sum_list (map (\<lambda>(k, n). \<bar>n\<bar>) ns) < 2 ^ 53 \<longrightarrow>
        valor_exato (saldo (snd (registrar_seq (ContaBancaria_init cliente var)
                                   (map (\<lambda>(k, n). (k, f64 (of_int n))) ns))))
          = soma_extrato (extrato (snd (registrar_seq (ContaBancaria_init cliente var)
                                         (map (\<lambda>(k, n). (k, f64 (of_int n))) ns)))))"
proof -
  let ?c = "ContaBancaria_init cliente var"
  have z: "saldo ?c = f64 (of_int 0)"
    by (simp add: ContaBancaria_init_def f64_def zero_float64_def)
  have a: "saldo (snd (registrar_seq ?c ps)) = saldo_acumulado (extrato (snd (registrar_seq ?c ps)))"
    by (rule registrar_seq_acumulado) (simp add: ContaBancaria_init_def saldo_acumulado_def)
  have b: "valor_exato (saldo (snd (registrar_seq ?c (map (\<lambda>(k, n). (k, f64 (of_int n))) ns))))
             = soma_extrato (extrato (snd (registrar_seq ?c (map (\<lambda>(k, n). (k, f64 (of_int n))) ns))))"
    if "sum_list (map (\<lambda>(k, n). \<bar>n\<bar>) ns) < 2 ^ 53"
  proof -
    have e0: "soma_extrato (extrato ?c) = Some (of_int 0)"
      by (simp add: ContaBancaria_init_def)
    have l0: "\<bar>0\<bar> + sum_list (map (\<lambda>(k, n). \<bar>n\<bar>) ns) < 2 ^ 53"
      using that by simp
    obtain s' where "saldo (snd (registrar_seq ?c (map (\<lambda>(k, n). (k, f64 (of_int n))) ns)))
                       = f64 (of_int s')"
        "soma_extrato (extrato (snd (registrar_seq ?c (map (\<lambda>(k, n). (k, f64 (of_int n))) ns))))
           = Some (of_int s')"
        "\<bar>s'\<bar> < 2 ^ 53"
      using registrar_seq_exato [OF z e0 l0] by blast
    then show ?thesis by (simp add: valor_exato_inteiro)
  qed
  show ?thesis using a b by blast
qed

text \<open>Whole amounts: a deposit of 500, a refused deposit of 0 and a withdrawal of
  200 leave 300, the exact sum.\<close>

theorem C1_witness:
  "sum_list (map (\<lambda>(k, n). \<bar>n\<bar>) [(Deposito, 500), (Deposito, 0), (Saque, 200::int)]) < 2 ^ 53
   \<and> saldo (snd (registrar_seq (ContaBancaria_init ''12345678900'' (ContaPoupanca (f64 100)))
                    [(Deposito, f64 500), (Deposito, f64 0), (Saque, f64 200)])) = f64 300
   \<and> soma_extrato (extrato (snd (registrar_seq
                      (ContaBancaria_init ''12345678900'' (ContaPoupanca (f64 100)))
                      [(Deposito, f64 500), (Deposito, f64 0), (Saque, f64 200)]))) = Some 300"
  using C1_saldo_acumulado_do_extrato [where cliente = "''12345678900''"
      and var = "ContaPoupanca (f64 100)" and ps = "[]"
      and ns = "[(Deposito, 500), (Deposito, 0), (Saque, 200)]"]
  by (simp add: ContaBancaria_init_def defs_conta Let_def avaliar valor_com_sinal_def
        saldo_acumulado_def)

text \<open>
  The claim as stated fails: on a fresh savings account, a deposit of \<open>10^16\<close>, a
  deposit of 1 and a withdrawal of \<open>10^16\<close> all succeed and are recorded; the deposit of
  1 is lost in rounding, so the balance is 0 and the signed amounts sum to 1.
\<close>

theorem C1_counterexample:
  "fst (registrar_seq (ContaBancaria_init ''12345678900'' (ContaPoupanca (f64 100)))
          [(Deposito, f64 10000000000000000), (Deposito, f64 1), (Saque, f64 10000000000000000)])
     = [Some \<lparr>tipo = Deposito, valor = f64 10000000000000000\<rparr>,
        Some \<lparr>tipo = Deposito, valor = f64 1\<rparr>,
        Some \<lparr>tipo = Saque, valor = f64 10000000000000000\<rparr>]
   \<and> saldo (snd (registrar_seq (ContaBancaria_init ''12345678900'' (ContaPoupanca (f64 100)))
          [(Deposito, f64 10000000000000000), (Deposito, f64 1), (Saque, f64 10000000000000000)]))
       = f64 0
   \<and> soma_extrato (extrato (snd (registrar_seq
          (ContaBancaria_init ''12345678900'' (ContaPoupanca (f64 100)))
          [(Deposito, f64 10000000000000000), (Deposito, f64 1), (Saque, f64 10000000000000000)])))
       = Some 1
   \<and> valor_exato (f64 0) = Some 0"
  by (simp add: ContaBancaria_init_def defs_conta Let_def avaliar valor_com_sinal_def
        representavel_1e16 f64_1e16_mais_1)

lemma registrar_casos:
  "(case registrar k c v of
      (None, c') \<Rightarrow> c' = c
    | (Some t, c') \<Rightarrow> t = \<lparr>tipo = k, valor = v\<rparr> \<and> extrato c' = extrato c @ [t])"
  by (cases k; cases "variante c") (simp_all add: defs_conta Let_def)

lemma registrar_extrato:
  "extrato (snd (registrar k c v))
     = extrato c @ (case fst (registrar k c v) of None \<Rightarrow> [] | Some t \<Rightarrow> [t])"
  by (cases k; cases "variante c") (simp_all add: defs_conta Let_def)

lemma registrar_seq_length:
  "length (extrato (snd (registrar_seq c ps)))
     = length (extrato c) + sucessos (fst (registrar_seq c ps))"
proof (induction ps arbitrary: c)
  case Nil
  show ?case by (simp add: sucessos_def)
next
  case (Cons p ps)
  obtain k v where p: "p = (k, v)" by (cases p)
  obtain r c' where r: "registrar k c v = (r, c')" by (cases "registrar k c v")
  obtain rs c'' where rs: "registrar_seq c' ps = (rs, c'')" by (cases "registrar_seq c' ps")
  have e: "extrato c' = extrato c @ (case r of None \<Rightarrow> [] | Some t \<Rightarrow> [t])"
    using registrar_extrato [of k c v] r by simp
  show ?case
    using Cons.IH [of c'] rs r e by (cases r) (simp_all add: p sucessos_def)
qed

text \<open>
  C7. A register call that fails returns nothing and leaves the whole account as it was;
  one that succeeds returns the record of its kind and amount and appends exactly that
  record. Hence after any sequence of register calls the ledger has grown by the number
  of calls that succeeded, and on a freshly constructed account its length is that
  number.
\<close>

theorem C7_extrato_conta_sucessos:
  "(case registrar k c v of
      (None, c') \<Rightarrow> c' = c
    | (Some t, c') \<Rightarrow> t = \<lparr>tipo = k, valor = v\<rparr> \<and> extrato c' = extrato c @ [t])
   \<and> length (extrato (snd (registrar_seq c ps)))
       = length (extrato c) + sucessos (fst (registrar_seq c ps))
   \<and> length (extrato (snd (registrar_seq (ContaBancaria_init cli var) ps)))
       = sucessos (fst (registrar_seq (ContaBancaria_init cli var) ps))"
  using registrar_casos [where k=k and c=c and v=v] registrar_seq_length [of c ps]
    registrar_seq_length [of "ContaBancaria_init cli var" ps]
  by (simp add: ContaBancaria_init_def)

section \<open>Properties of the withdrawal rules\<close>

lemma conta_no_teto_eq:
  "conta_no_teto =
     \<lparr>agencia = ''0001'', titular = ''12345678900'', numero_conta = Some (1234, 0), saldo = f64 100,
      extrato = [\<lparr>tipo = Deposito, valor = f64 400\<rparr>, \<lparr>tipo = Saque, valor = f64 100\<rparr>,
                 \<lparr>tipo = Saque, valor = f64 100\<rparr>, \<lparr>tipo = Saque, valor = f64 100\<rparr>],
      variante = ContaCorrente (f64 500) 3\<rparr>"
  by (simp add: conta_no_teto_def conta_corrente_nova_def ContaBancaria_init_def defs_conta
        numero_saques_def Let_def avaliar)

lemma conta_mil_eq:
  "conta_mil =
     \<lparr>agencia = ''0001'', titular = ''12345678900'', numero_conta = Some (1234, 0), saldo = f64 1000,
      extrato = [\<lparr>tipo = Deposito, valor = f64 500\<rparr>, \<lparr>tipo = Deposito, valor = f64 500\<rparr>],
      variante = ContaCorrente (f64 500) 3\<rparr>"
  by (simp add: conta_mil_def conta_corrente_nova_def ContaBancaria_init_def defs_conta
        numero_saques_def Let_def avaliar)

lemma conta_cenario_a_eq:
  "conta_cenario_a =
     \<lparr>agencia = ''0001'', titular = ''12345678900'', numero_conta = Some (1234, 0), saldo = f64 100,
      extrato = [\<lparr>tipo = Deposito, valor = f64 500\<rparr>, \<lparr>tipo = Saque, valor = f64 200\<rparr>,
                 \<lparr>tipo = Saque, valor = f64 200\<rparr>],
      variante = ContaCorrente (f64 500) 3\<rparr>"
  by (simp add: conta_cenario_a_def conta_corrente_nova_def ContaBancaria_init_def defs_conta
        numero_saques_def Let_def avaliar)

lemma poupanca_mil_eq:
  "poupanca_mil =
     \<lparr>agencia = ''0001'', titular = ''12345678900'', numero_conta = Some (4321, 0), saldo = f64 1000,
      extrato = [\<lparr>tipo = Deposito, valor = f64 1900\<rparr>, \<lparr>tipo = Saque, valor = f64 300\<rparr>,
                 \<lparr>tipo = Saque, valor = f64 300\<rparr>, \<lparr>tipo = Saque, valor = f64 300\<rparr>],
      variante = ContaPoupanca (f64 100)\<rparr>"
  by (simp add: poupanca_mil_def poupanca_nova_def ContaBancaria_init_def defs_conta
        numero_saques_def Let_def avaliar)

lemma conta_v1_cem_eq:
  "conta_v1_cem =
     conta_v1_nova\<lparr>v1_saldo := f64 100, v1_extrato := [\<lparr>tipo = Deposito, valor = f64 100\<rparr>]\<rparr>"
  by (simp add: conta_v1_cem_def conta_v1_nova_def banco_v1_exemplo_def v1_depositar_def
        avaliar)

lemma conta_v1_mil_eq:
  "conta_v1_mil =
     conta_v1_nova\<lparr>v1_saldo := f64 1000,
       v1_extrato := [\<lparr>tipo = Deposito, valor = f64 500\<rparr>, \<lparr>tipo = Deposito, valor = f64 500\<rparr>]\<rparr>"
  by (simp add: conta_v1_mil_def conta_v1_nova_def banco_v1_exemplo_def v1_depositar_def
        avaliar)

lemma conta_v1_no_teto_eq:
  "conta_v1_no_teto =
     conta_v1_nova\<lparr>v1_saldo := f64 100,
       v1_extrato := [\<lparr>tipo = Deposito, valor = f64 400\<rparr>, \<lparr>tipo = Saque, valor = f64 100\<rparr>,
                      \<lparr>tipo = Saque, valor = f64 100\<rparr>, \<lparr>tipo = Saque, valor = f64 100\<rparr>],
       v1_saques_diarios := Some 3\<rparr>"
  by (simp add: conta_v1_no_teto_def conta_v1_nova_def banco_v1_exemplo_def v1_depositar_def
        v1_sacar_def v1_get_saques_diarios_def avaliar)

lemma sacar_acima_limite:
  "variante c = ContaCorrente limite limite_saque \<Longrightarrow> v > limite \<Longrightarrow>
     sacar c v = (LimiteExcedido, c)"
  by (simp add: defs_conta)

lemma sacar_no_teto:
  "variante c = ContaCorrente limite limite_saque \<Longrightarrow> limite_saque \<le> int (numero_saques c) \<Longrightarrow>
     sacar c v = (if v > limite then LimiteExcedido else SaquesExcedidos, c)"
  by (simp add: defs_conta)

lemma sacar_saldo_insuficiente:
  "variante c = ContaCorrente limite limite_saque \<Longrightarrow> v > saldo c \<Longrightarrow> v \<le> limite \<Longrightarrow>
     sacar c v
       = (if limite_saque \<le> int (numero_saques c) then SaquesExcedidos else SaldoInsuficiente, c)"
  by (simp add: defs_conta ordem_f64)

lemma sacar_poupanca_saldo_insuficiente:
  "variante c = ContaPoupanca dm \<Longrightarrow> v > saldo c \<Longrightarrow> sacar c v = (SaldoInsuficiente, c)"
  by (simp add: defs_conta)

lemma Saque_registrar_falha:
  "fst (sacar c v) \<noteq> Sucesso \<Longrightarrow> snd (sacar c v) = c \<Longrightarrow> Saque_registrar c v = (None, c)"
  by (cases "sacar c v") (simp add: Saque_registrar_def)

lemma v1_sacar_no_teto:
  "v1_limite_saques b \<le> v1_get_saques_diarios c \<Longrightarrow>
     v1_sacar b c v
       = (if v \<le> 0 then ValorInvalido else if v > v1_saldo c then SaldoInsuficiente
          else if v > v1_limite b then LimiteExcedido else SaquesExcedidos, c)"
  by (simp add: v1_sacar_def)

lemma v1_sacar_acima_limite:
  "v > v1_limite b \<Longrightarrow>
     v1_sacar b c v
       = (if v \<le> 0 then ValorInvalido else if v > v1_saldo c then SaldoInsuficiente
          else LimiteExcedido, c)"
  by (simp add: v1_sacar_def)

lemma v1_sacar_saldo_insuficiente:
  "v > v1_saldo c \<Longrightarrow> v1_sacar b c v = (if v \<le> 0 then ValorInvalido else SaldoInsuficiente, c)"
  by (simp add: v1_sacar_def)

text \<open>
  C5, as amended. In the class-based program, a checking account rejects every amount
  above its ceiling with LimitExceeded, whatever its balance and its ledger, and the
  account (balance and ledger) is unchanged; the registrar then records nothing. In the
  procedural program an amount above the ceiling is always rejected with the account
  unchanged, but the ceiling is checked after the amount's sign and the balance: the
  rejection is LimitExceeded only when the amount is covered by the balance.
\<close>

theorem C5_saque_acima_do_limite:
  "(variante c = ContaCorrente limite limite_saque \<longrightarrow> v > limite \<longrightarrow>
      sacar c v = (LimiteExcedido, c) \<and> Saque_registrar c v = (None, c))
   \<and> (w > v1_limite b \<longrightarrow>
        v1_sacar b c1 w
          = (if w \<le> 0 then ValorInvalido else if w > v1_saldo c1 then SaldoInsuficiente
             else LimiteExcedido, c1))"
  using sacar_acima_limite [of c limite limite_saque v] Saque_registrar_falha [of c v]
    v1_sacar_acima_limite [of b w c1]
  by simp

text \<open>Scenario C: 600 from the account of ceiling 500 and balance 1000, in both
  programs.\<close>

theorem C5_witness:
  "variante conta_mil = ContaCorrente (f64 500) 3 \<and> saldo conta_mil = f64 1000 \<and> f64 600 > f64 500
   \<and> sacar conta_mil (f64 600) = (LimiteExcedido, conta_mil)
   \<and> Saque_registrar conta_mil (f64 600) = (None, conta_mil)
   \<and> v1_limite banco_v1_exemplo = f64 500 \<and> v1_saldo conta_v1_mil = f64 1000
   \<and> v1_sacar banco_v1_exemplo conta_v1_mil (f64 600) = (LimiteExcedido, conta_v1_mil)"
  using C5_saque_acima_do_limite [where c = conta_mil and limite = "f64 500" and limite_saque = 3
      and v = "f64 600" and w = "f64 600" and b = banco_v1_exemplo and ?c1.0 = conta_v1_mil]
  by (simp add: conta_mil_eq conta_v1_mil_eq banco_v1_exemplo_def conta_v1_nova_def avaliar)

text \<open>The claim as stated fails in the procedural program: 600 from an account of type
  "corrente" with balance 100 and ceiling 500 is rejected for its balance.\<close>

theorem C5_counterexample:
  "v1_tipo_conta conta_v1_cem = ''corrente'' \<and> v1_limite banco_v1_exemplo = f64 500
   \<and> v1_saldo conta_v1_cem = f64 100 \<and> f64 600 > f64 500
   \<and> v1_sacar banco_v1_exemplo conta_v1_cem (f64 600) = (SaldoInsuficiente, conta_v1_cem)
   \<and> fst (v1_sacar banco_v1_exemplo conta_v1_cem (f64 600)) \<noteq> LimiteExcedido"
  by (simp add: conta_v1_cem_eq banco_v1_exemplo_def conta_v1_nova_def v1_sacar_def avaliar)

text \<open>
  C3, as amended. A checking account whose ledger holds at least the cap of withdrawal
  records rejects every further withdrawal, for every amount and balance, and the account
  is unchanged. The ceiling is checked first: the rejection is DailyWithdrawalCapReached
  for an amount up to the ceiling and LimitExceeded above it. In the procedural program
  the cap is checked last: the rejection is DailyWithdrawalCapReached only for a positive
  amount that is covered by the balance and within the ceiling.
\<close>

theorem C3_teto_de_saques:
  "(variante c = ContaCorrente limite limite_saque \<longrightarrow> limite_saque \<le> int (numero_saques c) \<longrightarrow>
      sacar c v = (if v > limite then LimiteExcedido else SaquesExcedidos, c)
      \<and> Saque_registrar c v = (None, c))
   \<and> (v1_limite_saques b \<le> v1_get_saques_diarios c1 \<longrightarrow>
        v1_sacar b c1 w
          = (if w \<le> 0 then ValorInvalido else if w > v1_saldo c1 then SaldoInsuficiente
             else if w > v1_limite b then LimiteExcedido else SaquesExcedidos, c1))"
  using sacar_no_teto [of c limite limite_saque v] Saque_registrar_falha [of c v]
    v1_sacar_no_teto [of b c1 w]
  by simp

text \<open>Scenario B: the fourth withdrawal, of 50, after three.\<close>

theorem C3_witness:
  "variante conta_no_teto = ContaCorrente (f64 500) 3 \<and> 3 \<le> int (numero_saques conta_no_teto)
   \<and> sacar conta_no_teto (f64 50) = (SaquesExcedidos, conta_no_teto)
   \<and> Saque_registrar conta_no_teto (f64 50) = (None, conta_no_teto)
   \<and> v1_limite_saques banco_v1_exemplo \<le> v1_get_saques_diarios conta_v1_no_teto
   \<and> v1_sacar banco_v1_exemplo conta_v1_no_teto (f64 50) = (SaquesExcedidos, conta_v1_no_teto)"
  using C3_teto_de_saques [where c = conta_no_teto and limite = "f64 500" and limite_saque = 3
      and v = "f64 50" and w = "f64 50" and b = banco_v1_exemplo and ?c1.0 = conta_v1_no_teto]
  by (simp add: conta_no_teto_eq conta_v1_no_teto_eq banco_v1_exemplo_def conta_v1_nova_def
        numero_saques_def v1_get_saques_diarios_def avaliar)

text \<open>The claim as stated fails: at the cap, 600 is rejected for the ceiling of 500,
  not for the cap.\<close>

theorem C3_counterexample:
  "variante conta_no_teto = ContaCorrente (f64 500) 3 \<and> numero_saques conta_no_teto = 3
   \<and> sacar conta_no_teto (f64 600) = (LimiteExcedido, conta_no_teto)
   \<and> fst (sacar conta_no_teto (f64 600)) \<noteq> SaquesExcedidos"
  by (simp add: conta_no_teto_eq numero_saques_def defs_conta avaliar)

text \<open>
  C4, as amended. An amount above the balance and within the ceiling is always rejected
  with the account unchanged. The rejection is InsufficientBalance on a savings account;
  on a checking account it is InsufficientBalance while the recorded withdrawals are
  below the cap, and DailyWithdrawalCapReached once they have reached it, the cap being
  checked before the balance. In the procedural program it is InsufficientBalance for
  every positive amount.
\<close>

theorem C4_saldo_insuficiente:
  "(variante c = ContaCorrente limite limite_saque \<longrightarrow> v > saldo c \<longrightarrow> v \<le> limite \<longrightarrow>
      sacar c v
        = (if limite_saque \<le> int (numero_saques c) then SaquesExcedidos else SaldoInsuficiente, c)
      \<and> Saque_registrar c v = (None, c))
   \<and> (variante c = ContaPoupanca dm \<longrightarrow> v > saldo c \<longrightarrow>
        sacar c v = (SaldoInsuficiente, c) \<and> Saque_registrar c v = (None, c))
   \<and> (w > v1_saldo c1 \<longrightarrow>
        v1_sacar b c1 w = (if w \<le> 0 then ValorInvalido else SaldoInsuficiente, c1))"
  using sacar_saldo_insuficiente [of c limite limite_saque v]
    sacar_poupanca_saldo_insuficiente [of c dm v] Saque_registrar_falha [of c v]
    v1_sacar_saldo_insuficiente [of c1 w b]
  by simp

text \<open>Scenario A: the third withdrawal of 200, from a balance of 100; 1500 from a
  savings account of balance 1000; 200 from a balance of 100 in the procedural program.\<close>

theorem C4_witness:
  "variante conta_cenario_a = ContaCorrente (f64 500) 3 \<and> f64 200 > saldo conta_cenario_a
   \<and> f64 200 \<le> f64 500
   \<and> sacar conta_cenario_a (f64 200) = (SaldoInsuficiente, conta_cenario_a)
   \<and> variante poupanca_mil = ContaPoupanca (f64 100) \<and> f64 1500 > saldo poupanca_mil
   \<and> sacar poupanca_mil (f64 1500) = (SaldoInsuficiente, poupanca_mil)
   \<and> f64 200 > v1_saldo conta_v1_cem
   \<and> v1_sacar banco_v1_exemplo conta_v1_cem (f64 200) = (SaldoInsuficiente, conta_v1_cem)"
  using C4_saldo_insuficiente [where c = conta_cenario_a and limite = "f64 500" and limite_saque = 3
      and v = "f64 200" and w = "f64 200" and b = banco_v1_exemplo and ?c1.0 = conta_v1_cem]
    C4_saldo_insuficiente [where c = poupanca_mil and dm = "f64 100" and v = "f64 1500"]
  by (simp add: conta_cenario_a_eq poupanca_mil_eq conta_v1_cem_eq conta_v1_nova_def
        numero_saques_def avaliar)

text \<open>The claim as stated fails on a checking account at its cap: 200 from a balance of
  100, within the ceiling of 500, is rejected for the cap.\<close>

theorem C4_counterexample:
  "variante conta_no_teto = ContaCorrente (f64 500) 3 \<and> saldo conta_no_teto = f64 100
   \<and> f64 200 > saldo conta_no_teto \<and> f64 200 \<le> f64 500
   \<and> sacar conta_no_teto (f64 200) = (SaquesExcedidos, conta_no_teto)
   \<and> fst (sacar conta_no_teto (f64 200)) \<noteq> SaldoInsuficiente"
  by (simp add: conta_no_teto_eq numero_saques_def defs_conta avaliar)

lemma poupanca_grande_eq:
  "poupanca_grande =
     \<lparr>agencia = ''0001'', titular = ''12345678900'', numero_conta = Some (4321, 0),
      saldo = f64 10000000000000000,
      extrato = [\<lparr>tipo = Deposito, valor = f64 10000000000000000\<rparr>],
      variante = ContaPoupanca (f64 100)\<rparr>"
  by (simp add: poupanca_grande_def poupanca_nova_def ContaBancaria_init_def defs_conta
        Let_def avaliar representavel_1e16)

lemma saque_inteiro_exato:
  assumes "0 < f64 (of_int b)" and "f64 (of_int b) \<le> f64 (of_int a)"
    and "\<bar>a\<bar> < 2 ^ 53" and "\<bar>b\<bar> < 2 ^ 53"
  shows "f64 (of_int a) - f64 (of_int b) = f64 (of_int (a - b))"
proof -
  have "0 < b" using assms(1,4) by (simp add: f64_inteiro_positivo)
  moreover have "b \<le> a" using assms(2,3,4) by (simp add: f64_inteiro_menor_igual)
  ultimately have "\<bar>a - b\<bar> < 2 ^ 53" using assms(3) by linarith
  with assms(3,4) show ?thesis by (rule f64_inteiro_diferenca)
qed

text \<open>
  C10, as amended. A savings account pays every amount that is positive and covered by
  its balance: the withdrawal succeeds, whatever the amount and the number of
  withdrawals already recorded, and nothing changes but the balance, which becomes the
  binary64 difference of the balance and the amount; through the registrar, the
  withdrawal is recorded. The difference is exact, so that the balance drops by exactly
  the amount, when balance and amount are whole numbers below \<open>2^53\<close>.
\<close>

theorem C10_poupanca_sem_limites:
  "variante c = ContaPoupanca dm \<Longrightarrow> 0 < v \<Longrightarrow> v \<le> saldo c \<Longrightarrow>
     sacar c v = (Sucesso, c\<lparr>saldo := saldo c - v\<rparr>)
     \<and> Saque_registrar c v
         = (Some \<lparr>tipo = Saque, valor = v\<rparr>,
            c\<lparr>saldo := saldo c - v, extrato := extrato c @ [\<lparr>tipo = Saque, valor = v\<rparr>]\<rparr>)
     \<and> (saldo c = f64 (of_int a) \<longrightarrow> v = f64 (of_int b) \<longrightarrow> \<bar>a\<bar> < 2 ^ 53 \<longrightarrow> \<bar>b\<bar> < 2 ^ 53 \<longrightarrow>
          saldo c - v = f64 (of_int (a - b)))"
  using saque_inteiro_exato [of b a]
  by (auto simp: defs_conta Let_def ordem_f64)

text \<open>600, above the checking ceiling of 500, from a savings account of balance 1000
  that has recorded three withdrawals already: the balance is 400.\<close>

theorem C10_witness:
  "variante poupanca_mil = ContaPoupanca (f64 100) \<and> 0 < f64 600 \<and> f64 600 \<le> saldo poupanca_mil
   \<and> numero_saques poupanca_mil = 3
   \<and> saldo poupanca_mil = f64 (of_int 1000) \<and> f64 600 = f64 (of_int 600)
   \<and> \<bar>1000 :: int\<bar> < 2 ^ 53 \<and> \<bar>600 :: int\<bar> < 2 ^ 53
   \<and> sacar poupanca_mil (f64 600) = (Sucesso, poupanca_mil\<lparr>saldo := f64 400\<rparr>)"
  using C10_poupanca_sem_limites [of poupanca_mil "f64 100" "f64 600" 1000 600]
  by (simp add: poupanca_mil_eq numero_saques_def avaliar)

text \<open>
  The claim as stated fails: a savings account of balance \<open>10^16\<close> pays a withdrawal
  of 1, and its balance is \<open>10^16\<close> still, since \<open>10^16 - 1\<close> rounds to \<open>10^16\<close>.
\<close>

theorem C10_counterexample:
  "variante poupanca_grande = ContaPoupanca (f64 100)
   \<and> valor_exato (saldo poupanca_grande) = Some 10000000000000000
   \<and> 0 < f64 1 \<and> f64 1 \<le> saldo poupanca_grande
   \<and> sacar poupanca_grande (f64 1) = (Sucesso, poupanca_grande)
   \<and> valor_exato (saldo (snd (sacar poupanca_grande (f64 1)))) = Some 10000000000000000"
  by (simp add: poupanca_grande_eq defs_conta avaliar representavel_1e16 f64_1e16_menos_1)

lemma registrar_variante: "variante (snd (registrar k c v)) = variante c"
  by (cases k; cases "variante c") (simp_all add: defs_conta Let_def)

lemma registrar_numero_saques:
  "numero_saques (snd (registrar k c v))
     = numero_saques c + (if k = Saque \<and> fst (registrar k c v) \<noteq> None then 1 else 0)"
  by (cases k; cases "variante c") (simp_all add: defs_conta Let_def numero_saques_def)

lemma registrar_seq_variante: "variante (snd (registrar_seq c ps)) = variante c"
proof (induction ps arbitrary: c)
  case Nil
  show ?case by simp
next
  case (Cons p ps)
  obtain k v where p: "p = (k, v)" by (cases p)
  show ?case
    using Cons.IH [of "snd (registrar k c v)"] registrar_variante [of k c v]
    by (simp only: p registrar_seq_Cons)
qed

lemma registrar_seq_numero_saques:
  "numero_saques c \<le> numero_saques (snd (registrar_seq c ps))"
proof (induction ps arbitrary: c)
  case Nil
  show ?case by simp
next
  case (Cons p ps)
  obtain k v where p: "p = (k, v)" by (cases p)
  have "numero_saques c \<le> numero_saques (snd (registrar k c v))"
    by (simp add: registrar_numero_saques)
  then show ?case
    using Cons.IH [of "snd (registrar k c v)"] by (simp only: p registrar_seq_Cons)
qed

lemma sacar_apos_teto:
  assumes "variante c = ContaCorrente limite limite_saque"
    and "limite_saque \<le> int (numero_saques c)"
  shows "fst (sacar (snd (registrar_seq c ps)) w) \<noteq> Sucesso"
    and "Saque_registrar (snd (registrar_seq c ps)) w = (None, snd (registrar_seq c ps))"
proof -
  let ?c = "snd (registrar_seq c ps)"
  have v: "variante ?c = ContaCorrente limite limite_saque"
    using assms(1) by (simp add: registrar_seq_variante)
  have n: "limite_saque \<le> int (numero_saques ?c)"
    using assms(2) registrar_seq_numero_saques [of c ps] by linarith
  have s: "sacar ?c w = (if w > limite then LimiteExcedido else SaquesExcedidos, ?c)"
    using v n by (rule sacar_no_teto)
  show "fst (sacar ?c w) \<noteq> Sucesso" by (simp add: s)
  then show "Saque_registrar ?c w = (None, ?c)"
    by (rule Saque_registrar_falha) (simp add: s)
qed

lemma v1_passo_saques:
  "v1_get_saques_diarios (snd (v1_sacar b c v))
     = v1_get_saques_diarios c + (if fst (v1_sacar b c v) = Sucesso then 1 else 0)"
  "v1_get_saques_diarios (snd (v1_depositar b c v)) = v1_get_saques_diarios c"
  by (simp_all add: v1_sacar_def v1_depositar_def v1_get_saques_diarios_def)

lemma v1_operar_seq_saques:
  "v1_get_saques_diarios c \<le> v1_get_saques_diarios (v1_operar_seq b c ps)"
proof (induction ps arbitrary: c)
  case Nil
  show ?case by simp
next
  case (Cons p ps)
  obtain k v where p: "p = (k, v)" by (cases p)
  show ?case
  proof (cases k)
    case Saque
    have "v1_get_saques_diarios c \<le> v1_get_saques_diarios (snd (v1_sacar b c v))"
      by (simp add: v1_passo_saques)
    then show ?thesis
      using Cons.IH [of "snd (v1_sacar b c v)"] by (simp add: p Saque)
  next
    case Deposito
    show ?thesis
      using Cons.IH [of "snd (v1_depositar b c v)"] by (simp add: p Deposito v1_passo_saques)
  qed
qed

lemma v1_sacar_apos_teto:
  assumes "v1_limite_saques b \<le> v1_get_saques_diarios c"
  shows "fst (v1_sacar b (v1_operar_seq b c ps) w) \<noteq> Sucesso"
proof -
  have "v1_limite_saques b \<le> v1_get_saques_diarios (v1_operar_seq b c ps)"
    using assms v1_operar_seq_saques [of c b ps] by linarith
  then show ?thesis by (simp add: v1_sacar_no_teto)
qed

text \<open>
  C8. In both programs the count that the cap rule reads never goes down and goes up by
  exactly one with each successful withdrawal: in the class-based program it is the
  number of withdrawal records of the ledger, which only the registrar extends; in the
  procedural program it is the account's counter, which only a successful withdrawal
  writes. No operation takes a time or a date. Hence, once the count of a checking
  account has reached the cap, a withdrawal of any amount after any further sequence of
  deposits and withdrawal attempts fails.
\<close>

theorem C8_contador_de_saques_vitalicio:
  "numero_saques (snd (registrar k c v))
     = numero_saques c + (if k = Saque \<and> fst (registrar k c v) \<noteq> None then 1 else 0)
   \<and> numero_saques c \<le> numero_saques (snd (registrar_seq c ps))
   \<and> (variante c = ContaCorrente limite limite_saque \<longrightarrow>
        limite_saque \<le> int (numero_saques c) \<longrightarrow>
          fst (sacar (snd (registrar_seq c ps)) w) \<noteq> Sucesso
          \<and> Saque_registrar (snd (registrar_seq c ps)) w = (None, snd (registrar_seq c ps)))
   \<and> v1_get_saques_diarios (snd (v1_sacar b c1 v))
       = v1_get_saques_diarios c1 + (if fst (v1_sacar b c1 v) = Sucesso then 1 else 0)
   \<and> v1_get_saques_diarios (snd (v1_depositar b c1 v)) = v1_get_saques_diarios c1
   \<and> v1_get_saques_diarios c1 \<le> v1_get_saques_diarios (v1_operar_seq b c1 ps)
   \<and> (v1_limite_saques b \<le> v1_get_saques_diarios c1 \<longrightarrow>
        fst (v1_sacar b (v1_operar_seq b c1 ps) w) \<noteq> Sucesso)"
  using registrar_numero_saques [of k c v] registrar_seq_numero_saques [of c ps]
    sacar_apos_teto [of c limite limite_saque ps w] v1_passo_saques [of b c1 v]
    v1_operar_seq_saques [of c1 b ps] v1_sacar_apos_teto [of b c1 ps w]
  by simp

text \<open>At the cap, after further deposits of 1000 and 5, a withdrawal of 50 fails.\<close>

theorem C8_witness:
  "variante conta_no_teto = ContaCorrente (f64 500) 3 \<and> 3 \<le> int (numero_saques conta_no_teto)
   \<and> saldo (snd (registrar_seq conta_no_teto [(Deposito, f64 1000), (Deposito, f64 5)])) = f64 1105
   \<and> fst (sacar (snd (registrar_seq conta_no_teto [(Deposito, f64 1000), (Deposito, f64 5)])) (f64 50))
       \<noteq> Sucesso
   \<and> v1_limite_saques banco_v1_exemplo \<le> v1_get_saques_diarios conta_v1_no_teto
   \<and> fst (v1_sacar banco_v1_exemplo
            (v1_operar_seq banco_v1_exemplo conta_v1_no_teto [(Deposito, f64 1000), (Deposito, f64 5)]) (f64 50))
       \<noteq> Sucesso"
  using C8_contador_de_saques_vitalicio [where c = conta_no_teto and limite = "f64 500"
      and limite_saque = 3 and w = "f64 50" and b = banco_v1_exemplo and ?c1.0 = conta_v1_no_teto
      and ps = "[(Deposito, f64 1000), (Deposito, f64 5)]"]
  by (simp add: conta_no_teto_eq conta_v1_no_teto_eq banco_v1_exemplo_def conta_v1_nova_def
        numero_saques_def v1_get_saques_diarios_def defs_conta Let_def avaliar)

section \<open>Properties of the bank workflows\<close>

lemma filtrar_cliente_Some:
  "filtrar_cliente i cs = Some c \<Longrightarrow> c \<in> set cs \<and> identificador_de c = i"
  by (induction cs) (auto simp: identificador_de_def split: pessoa.splits if_splits)

lemma filtrar_cliente_None:
  "filtrar_cliente i cs = None \<longleftrightarrow> i \<notin> identificador_de ` set cs"
  by (induction cs) (auto simp: identificador_de_def split: pessoa.splits if_splits)

lemma filtrar_modificar:
  "(\<And>x. pessoa (f x) = pessoa x) \<Longrightarrow>
     filtrar_cliente i (modificar_cliente i f cs) = map_option f (filtrar_cliente i cs)"
  by (induction cs) (auto split: pessoa.splits)

lemma deposito_inicial_aceito:
  "numero_deposito c = 0 \<Longrightarrow> \<forall>x\<in>set rejeitados. \<not> x \<ge> f64 100 \<Longrightarrow> v \<ge> f64 100 \<Longrightarrow>
     deposito_inicial c (rejeitados @ v # resto) = Some (c\<lparr>saldo := saldo c + v\<rparr>)"
proof (induction rejeitados)
  case Nil
  then show ?case
    by (cases "variante c")
       (simp_all add: depositar_def ContaBancaria_depositar_def ContaPoupanca_depositar_def
          cem_positivo cem_nao_invalido)
next
  case (Cons x xs)
  then show ?case by simp
qed

lemma cem_nao_zero:
  "f64 100 \<le> v \<Longrightarrow> v \<noteq> 0 \<and> valor_exato v \<noteq> Some 0"
  by (cases v) (auto simp: avaliar)

lemma criar_poupanca:
  "cont ''poupanca'' = Some (prefixo, sufixo) \<Longrightarrow>
     ContaBancaria_criar_nova_conta cont cli ''poupanca''
       = Some (\<lparr>agencia = ''0001'', titular = cli, numero_conta = Some (prefixo, sufixo),
                saldo = 0, extrato = [], variante = ContaPoupanca (f64 100)\<rparr>,
               cont(''poupanca'' \<mapsto> (prefixo, sufixo + 1)))"
  by (simp add: ContaBancaria_criar_nova_conta_def gerar_numero_conta_def ContaBancaria_init_def)

text \<open>
  C9. The workflow \<open>criar_nova_conta\<close>, for a client that is found and the type
  "poupanca": whatever amounts fail the test \<open>valor >= 100\<close> and are refused first
  (an amount below 100, or NaN), the first amount \<open>v\<close> of at least 100 is
  deposited by \<open>conta.depositar\<close>, not by
  \<open>Deposito.registrar\<close>. The workflow returns \<open>True\<close>, the counter has advanced, and
  the account appended to the client has balance \<open>v\<close> and an empty ledger: its balance
  is not the sum of its ledger, which is zero (as the exact sum and as accumulated in
  binary64).
\<close>

theorem C9_poupanca_deposito_inicial_direto:
  assumes "filtrar_cliente i clientes = Some cli"
    and "cont ''poupanca'' = Some (prefixo, sufixo)"
    and "\<forall>x\<in>set rejeitados. \<not> x \<ge> f64 100"
    and "v \<ge> f64 100"
  shows "(let nova = \<lparr>agencia = ''0001'', titular = identificador_de cli,
                       numero_conta = Some (prefixo, sufixo), saldo = v, extrato = [],
                       variante = ContaPoupanca (f64 100)\<rparr>;
              clientes' = modificar_cliente i (\<lambda>x. x\<lparr>contas := contas x @ [nova]\<rparr>) clientes
          in criar_nova_conta clientes cont i ''poupanca'' (rejeitados @ v # resto)
               = Some (True, clientes', cont(''poupanca'' \<mapsto> (prefixo, sufixo + 1)))
             \<and> filtrar_cliente i clientes' = Some (cli\<lparr>contas := contas cli @ [nova]\<rparr>)
             \<and> saldo nova = v \<and> extrato nova = []
             \<and> saldo nova \<noteq> saldo_acumulado (extrato nova)
             \<and> valor_exato (saldo nova) \<noteq> soma_extrato (extrato nova))"
proof -
  let ?c0 = "\<lparr>agencia = ''0001'', titular = identificador_de cli,
               numero_conta = Some (prefixo, sufixo), saldo = (0::float64), extrato = [],
               variante = ContaPoupanca (f64 100)\<rparr>"
  have cria: "ContaBancaria_criar_nova_conta cont (identificador_de cli) ''poupanca''
                = Some (?c0, cont(''poupanca'' \<mapsto> (prefixo, sufixo + 1)))"
    using assms(2) by (rule criar_poupanca)
  have dep: "deposito_inicial ?c0 (rejeitados @ v # resto) = Some (?c0\<lparr>saldo := saldo ?c0 + v\<rparr>)"
    using assms(3,4) by (intro deposito_inicial_aceito) (simp_all add: numero_deposito_def)
  have fm: "filtrar_cliente i (modificar_cliente i (\<lambda>x. x\<lparr>contas := contas x @ [n]\<rparr>) clientes)
              = Some (cli\<lparr>contas := contas cli @ [n]\<rparr>)" for n
    using assms(1) by (simp add: filtrar_modificar)
  have "v \<noteq> 0 \<and> valor_exato v \<noteq> Some 0" using assms(4) by (rule cem_nao_zero)
  then show ?thesis
    using assms(1) cria dep fm
    by (simp add: criar_nova_conta_def Let_def saldo_acumulado_def zero_mais)
qed

text \<open>Amounts typed: 50, "nan" and 99.5, refused, then 250.\<close>

theorem C9_witness:
  "filtrar_cliente ''12345678900'' [maria] = Some maria
   \<and> contador_contas ''poupanca'' = Some (4321, 0)
   \<and> list_all (\<lambda>x. \<not> x \<ge> f64 100) [f64 50, NaN, f64 99.5] \<and> f64 250 \<ge> f64 100
   \<and> criar_nova_conta [maria] contador_contas ''12345678900'' ''poupanca''
         [f64 50, NaN, f64 99.5, f64 250]
       = Some (True,
               [maria\<lparr>contas := [\<lparr>agencia = ''0001'', titular = ''12345678900'',
                                  numero_conta = Some (4321, 0), saldo = f64 250, extrato = [],
                                  variante = ContaPoupanca (f64 100)\<rparr>]\<rparr>],
               contador_contas(''poupanca'' \<mapsto> (4321, 1)))"
  using C9_poupanca_deposito_inicial_direto [of "''12345678900''" "[maria]" maria contador_contas
      4321 0 "[f64 50, NaN, f64 99.5]" "f64 250" "[]"]
  by (simp add: maria_def contador_contas_def identificador_de_def Let_def avaliar
        representavel_99_5 saldo_acumulado_def)

lemma cadastrar_cliente_existente:
  "filtrar_cliente i clientes \<noteq> None \<Longrightarrow> cadastrar_cliente clientes tp i d = (JaCadastrado, clientes)"
  by (cases tp) (simp_all add: cadastrar_cliente_def)

lemma cadastrar_cliente_novo:
  "filtrar_cliente i clientes = None \<Longrightarrow>
     \<exists>novo. cadastrar_cliente clientes tp i d = (Cadastrado, clientes @ [novo])
            \<and> identificador_de novo = i \<and> contas novo = []"
  by (cases tp) (simp_all add: cadastrar_cliente_def identificador_de_def)

lemma cadastrar_cliente_distinct:
  assumes "distinct (map identificador_de clientes)"
  shows "distinct (map identificador_de (snd (cadastrar_cliente clientes tp i d)))"
proof (cases "filtrar_cliente i clientes")
  case None
  then obtain novo where n: "cadastrar_cliente clientes tp i d = (Cadastrado, clientes @ [novo])"
      "identificador_de novo = i"
    using cadastrar_cliente_novo [of i clientes tp d] by blast
  have "i \<notin> identificador_de ` set clientes"
    using None by (simp add: filtrar_cliente_None)
  then show ?thesis using assms n by simp
next
  case (Some c)
  then show ?thesis using assms by (simp add: cadastrar_cliente_existente)
qed

lemma cadastrar_seq_distinct:
  "distinct (map identificador_de clientes) \<Longrightarrow>
     distinct (map identificador_de (cadastrar_seq clientes rs))"
proof (induction rs arbitrary: clientes)
  case Nil
  then show ?case by simp
next
  case (Cons r rs)
  obtain tp i d where r: "r = (tp, i, d)" by (cases r)
  show ?case
    using Cons.IH [OF cadastrar_cliente_distinct [OF Cons.prems, of tp i d]] by (simp add: r)
qed

text \<open>
  C6, as amended. The registration workflow \<open>cadastrar_cliente\<close> refuses an identifier
  (CPF or CNPJ) that a client of the list already has, with "Cliente ja cadastrado", and
  leaves the list as it was; an identifier that is new is appended with no accounts.
  Consequently a list without two clients of the same identifier stays so under every
  sequence of registrations, and the list built from the empty bank has none.
  \<open>Banco.adicionar_cliente\<close> itself makes no such test.
\<close>

theorem C6_cadastro_sem_duplicatas:
  "(filtrar_cliente i clientes \<noteq> None \<longrightarrow>
      cadastrar_cliente clientes tp i d = (JaCadastrado, clientes))
   \<and> (filtrar_cliente i clientes = None \<longrightarrow>
        (\<exists>novo. cadastrar_cliente clientes tp i d = (Cadastrado, clientes @ [novo])
               \<and> identificador_de novo = i \<and> contas novo = []))
   \<and> (distinct (map identificador_de clientes) \<longrightarrow>
        distinct (map identificador_de (cadastrar_seq clientes rs)))
   \<and> distinct (map identificador_de (cadastrar_seq [] rs))"
  using cadastrar_cliente_existente [of i clientes tp d] cadastrar_cliente_novo [of i clientes tp d]
    cadastrar_seq_distinct [of clientes rs] cadastrar_seq_distinct [of "[]" rs]
  by simp

text \<open>A second registration of Maria's CPF, as a company, is refused; a registration
  under another identifier is accepted.\<close>

theorem C6_witness:
  "filtrar_cliente ''12345678900'' [maria] \<noteq> None
   \<and> cadastrar_cliente [maria] Juridica ''12345678900'' dados_maria = (JaCadastrado, [maria])
   \<and> filtrar_cliente ''12345678900'' [] = None
   \<and> cadastrar_cliente [] Fisica ''12345678900'' dados_maria = (Cadastrado, [maria])
   \<and> distinct (map identificador_de [maria])
   \<and> cadastrar_seq [maria] [(Juridica, ''12345678900'', dados_maria), (Fisica, ''222'', dados_maria)]
        = [maria, maria\<lparr>pessoa := PessoaFisica ''Maria Oliveira'' ''10/08/1990'' ''222''\<rparr>]
   \<and> distinct (map identificador_de
        (cadastrar_seq [maria] [(Juridica, ''12345678900'', dados_maria), (Fisica, ''222'', dados_maria)]))"
  using C6_cadastro_sem_duplicatas [where i = "''12345678900''" and clientes = "[maria]"
      and tp = Juridica and d = dados_maria
      and rs = "[(Juridica, ''12345678900'', dados_maria), (Fisica, ''222'', dados_maria)]"]
    C6_cadastro_sem_duplicatas [where i = "''12345678900''" and clientes = "[]"
      and tp = Fisica and d = dados_maria and rs = "[]"]
  by (simp add: maria_def dados_maria_def cadastrar_cliente_def identificador_de_def avaliar)

text \<open>The claim as stated fails for \<open>Banco.adicionar_cliente\<close>: it appends a second
  client with a CPF that is in the bank already.\<close>

theorem C6_counterexample:
  "filtrar_cliente ''12345678900'' [maria] = Some maria
   \<and> identificador_de mesmo_cpf = ''12345678900''
   \<and> Banco_adicionar_cliente [maria] mesmo_cpf = [maria, mesmo_cpf]
   \<and> Banco_adicionar_cliente [maria] mesmo_cpf \<noteq> [maria]
   \<and> \<not> distinct (map identificador_de (Banco_adicionar_cliente [maria] mesmo_cpf))"
  by (simp add: maria_def mesmo_cpf_def Banco_adicionar_cliente_def identificador_de_def avaliar)

lemma excluir_contas_mset:
  "mset copia \<subseteq># mset todas \<Longrightarrow> mset copia \<subseteq># mset dc \<Longrightarrow>
     \<exists>todas' dc'. excluir_contas copia todas dc = Some (todas', dc')
        \<and> mset todas' = mset todas - mset copia \<and> mset dc' = mset dc - mset copia"
proof (induction copia arbitrary: todas dc)
  case Nil
  then show ?case by simp
next
  case (Cons c copia)
  have a: "c \<in> set todas" "mset copia \<subseteq># mset (remove1 c todas)"
    using Cons.prems(1) by (auto simp: insert_subset_eq_iff)
  have b: "c \<in> set dc" "mset copia \<subseteq># mset (remove1 c dc)"
    using Cons.prems(2) by (auto simp: insert_subset_eq_iff)
  obtain t' d' where r: "excluir_contas copia (remove1 c todas) (remove1 c dc) = Some (t', d')"
      "mset t' = mset (remove1 c todas) - mset copia" "mset d' = mset (remove1 c dc) - mset copia"
    using Cons.IH [OF a(2) b(2)] by blast
  show ?case using a(1) b(1) r by simp
qed

lemma excluir_contas_proprias:
  assumes "mset cs \<subseteq># mset todas"
  shows "\<exists>todas'. excluir_contas cs todas cs = Some (todas', [])
           \<and> mset todas' = mset todas - mset cs"
proof -
  obtain t' d' where r: "excluir_contas cs todas cs = Some (t', d')"
      "mset t' = mset todas - mset cs" "mset d' = mset cs - mset cs"
    using excluir_contas_mset [OF assms, of cs] by auto
  then have "d' = []" by simp
  then show ?thesis using r by simp
qed

lemma contas_em_listar_contas:
  "c \<in> set clientes \<Longrightarrow> mset (contas c) \<subseteq># mset (listar_contas clientes)"
proof (induction clientes)
  case Nil
  then show ?case by simp
next
  case (Cons x xs)
  show ?case
  proof (cases "c = x")
    case True
    then show ?thesis by (simp add: listar_contas_def)
  next
    case False
    then have "mset (contas c) \<subseteq># mset (listar_contas xs)" using Cons by simp
    then show ?thesis
      by (simp add: listar_contas_def subset_mset.add_increasing)
  qed
qed

lemma filtrar_cliente_Cons:
  "filtrar_cliente i (c # cs) = (if identificador_de c = i then Some c else filtrar_cliente i cs)"
  by (simp add: identificador_de_def split: pessoa.splits)

lemma modificar_cliente_Cons:
  "modificar_cliente i f (c # cs)
     = (if identificador_de c = i then f c # cs else c # modificar_cliente i f cs)"
  by (simp add: identificador_de_def split: pessoa.splits)

lemmas cliente_Cons_del = filtrar_cliente.simps(2) modificar_cliente.simps(2)

lemma identificador_de_pessoa:
  "pessoa x = pessoa y \<Longrightarrow> identificador_de x = identificador_de y"
  by (simp add: identificador_de_def)

lemma remove1_modificar:
  "filtrar_cliente i cs = Some c \<Longrightarrow> (\<And>x. pessoa (f x) = pessoa x) \<Longrightarrow>
     remove1 (f c) (modificar_cliente i f cs) = remove1 c cs"
proof (induction cs)
  case Nil
  then show ?case by simp
next
  case (Cons x xs)
  show ?case
  proof (cases "identificador_de x = i")
    case True
    then have "c = x" using Cons.prems(1)
      by (simp add: filtrar_cliente_Cons del: cliente_Cons_del)
    then show ?thesis using True
      by (simp add: modificar_cliente_Cons del: cliente_Cons_del)
  next
    case False
    then have f: "filtrar_cliente i xs = Some c" using Cons.prems(1)
      by (simp add: filtrar_cliente_Cons del: cliente_Cons_del)
    have ic: "identificador_de c = i" using f by (simp add: filtrar_cliente_Some)
    have "identificador_de (f c) = i"
      using ic identificador_de_pessoa [OF Cons.prems(2), of c] by simp
    then have ne: "f c \<noteq> x" "c \<noteq> x" using False ic by auto
    show ?thesis using ne False Cons.IH [OF f Cons.prems(2)]
      by (simp add: modificar_cliente_Cons del: cliente_Cons_del)
  qed
qed

lemma filtrar_remove1:
  assumes "distinct (map identificador_de cs)" and "filtrar_cliente i cs = Some c"
  shows "filtrar_cliente i (remove1 c cs) = None"
proof -
  have c: "c \<in> set cs" "identificador_de c = i" using assms(2) by (simp_all add: filtrar_cliente_Some)
  have d: "distinct cs" using assms(1) by (simp add: distinct_map)
  have inj: "inj_on identificador_de (set cs)" using assms(1) by (simp add: distinct_map)
  have "i \<notin> identificador_de ` (set cs - {c})"
  proof
    assume "i \<in> identificador_de ` (set cs - {c})"
    then obtain x where x: "x \<in> set cs" "x \<noteq> c" "identificador_de x = i" by auto
    then show False using inj c by (auto dest: inj_onD)
  qed
  then show ?thesis using d by (simp add: filtrar_cliente_None)
qed

lemma listar_contas_remove1:
  "c \<in> set cs \<Longrightarrow> mset (listar_contas (remove1 c cs)) = mset (listar_contas cs) - mset (contas c)"
proof (induction cs)
  case Nil
  then show ?case by simp
next
  case (Cons x xs)
  show ?case
  proof (cases "c = x")
    case True
    then show ?thesis by (simp add: listar_contas_def)
  next
    case False
    then have "c \<in> set xs" using Cons.prems by simp
    then have ih: "mset (listar_contas (remove1 c xs)) = mset (listar_contas xs) - mset (contas c)"
      and sub: "mset (contas c) \<subseteq># mset (listar_contas xs)"
      using Cons.IH contas_em_listar_contas by auto
    show ?thesis using False ih sub by (simp add: listar_contas_def)
  qed
qed

lemma listar_contas_esvaziar:
  "filtrar_cliente i cs = Some c \<Longrightarrow>
     mset (listar_contas (modificar_cliente i (\<lambda>x. x\<lparr>contas := []\<rparr>) cs))
       = mset (listar_contas cs) - mset (contas c)"
proof (induction cs)
  case Nil
  then show ?case by simp
next
  case (Cons x xs)
  show ?case
  proof (cases "identificador_de x = i")
    case True
    then have "c = x" using Cons.prems(1)
      by (simp add: filtrar_cliente_Cons del: cliente_Cons_del)
    then show ?thesis using True
      by (simp add: modificar_cliente_Cons listar_contas_def del: cliente_Cons_del)
  next
    case False
    then have f: "filtrar_cliente i xs = Some c" using Cons.prems(1)
      by (simp add: filtrar_cliente_Cons del: cliente_Cons_del)
    have sub: "mset (contas c) \<subseteq># mset (listar_contas xs)"
      using f by (simp add: filtrar_cliente_Some contas_em_listar_contas)
    have ih: "mset (listar_contas (modificar_cliente i (\<lambda>x. x\<lparr>contas := []\<rparr>) xs))
       = mset (listar_contas xs) - mset (contas c)" using Cons.IH [OF f] .
    have "listar_contas (modificar_cliente i (\<lambda>x. x\<lparr>contas := []\<rparr>) (x # xs))
            = contas x @ listar_contas (modificar_cliente i (\<lambda>x. x\<lparr>contas := []\<rparr>) xs)"
      using False by (simp add: modificar_cliente_Cons listar_contas_def del: cliente_Cons_del)
    moreover have "listar_contas (x # xs) = contas x @ listar_contas xs"
      by (simp add: listar_contas_def)
    ultimately show ?thesis using sub ih by simp
  qed
qed

lemma sem_contas_apos_remocao:
  assumes "distinct xs" and "mset ys = mset xs - mset zs"
  shows "set zs \<inter> set ys = {}"
proof (rule ccontr)
  assume "set zs \<inter> set ys \<noteq> {}"
  then obtain a where a: "a \<in> set zs" "a \<in> set ys" by auto
  define m where "m = count (mset xs) a"
  define n where "n = count (mset zs) a"
  have "m \<le> 1" unfolding m_def using assms(1) by (simp add: distinct_count_atmost_1)
  moreover have "0 < n" unfolding n_def using a(1) by simp
  ultimately have "m - n = 0" by arith
  then have "count (mset xs - mset zs) a = 0" by (simp add: m_def n_def)
  then have "count (mset ys) a = 0" using assms(2) by simp
  then show False using a(2) by simp
qed

lemma excluir_cliente_sem_confirmar:
  "filtrar_cliente i clientes = Some cli \<Longrightarrow> contas cli \<noteq> [] \<Longrightarrow>
     excluir_cliente clientes todas i False conf = Some (CanceladaContasAtivas, clientes, todas)"
  by (simp add: excluir_cliente_def)

lemma excluir_cliente_cascata:
  assumes "filtrar_cliente i clientes = Some cli" and "contas cli \<noteq> []"
  shows "\<exists>todas'. excluir_cliente clientes (listar_contas clientes) i True conf
           = Some (if conf then (ClienteExcluido, remove1 cli clientes, todas')
                   else (ExclusaoCancelada,
                         modificar_cliente i (\<lambda>x. x\<lparr>contas := []\<rparr>) clientes, todas'))"
proof -
  have "mset (contas cli) \<subseteq># mset (listar_contas clientes)"
    using assms(1) by (simp add: filtrar_cliente_Some contas_em_listar_contas)
  then obtain t' where t: "excluir_contas (contas cli) (listar_contas clientes) (contas cli) = Some (t', [])"
    using excluir_contas_proprias by blast
  have r: "remove1 (cli\<lparr>contas := []\<rparr>) (modificar_cliente i (\<lambda>x. x\<lparr>contas := []\<rparr>) clientes)
             = remove1 cli clientes"
    using remove1_modificar [OF assms(1), of "\<lambda>x. x\<lparr>contas := []\<rparr>"] by simp
  show ?thesis using assms t r by (simp add: excluir_cliente_def)
qed

lemma v1_filtrar_cliente_Some:
  "v1_filtrar_cliente cpf cs = Some c \<Longrightarrow> c \<in> set cs \<and> v1_cpf c = cpf"
  by (induction cs) (auto split: if_splits)

lemma v1_filtrar_cliente_None:
  "v1_filtrar_cliente cpf cs = None \<longleftrightarrow> cpf \<notin> v1_cpf ` set cs"
  by (induction cs) auto

lemma v1_filtrar_remove1:
  assumes "distinct (map v1_cpf cs)" and "v1_filtrar_cliente cpf cs = Some c"
  shows "v1_filtrar_cliente cpf (remove1 c cs) = None"
proof -
  have c: "c \<in> set cs" "v1_cpf c = cpf" using assms(2) by (simp_all add: v1_filtrar_cliente_Some)
  have d: "distinct cs" using assms(1) by (simp add: distinct_map)
  have inj: "inj_on v1_cpf (set cs)" using assms(1) by (simp add: distinct_map)
  have "cpf \<notin> v1_cpf ` (set cs - {c})"
  proof
    assume "cpf \<in> v1_cpf ` (set cs - {c})"
    then obtain x where x: "x \<in> set cs" "x \<noteq> c" "v1_cpf x = cpf" by auto
    then show False using inj c by (auto dest: inj_onD)
  qed
  then show ?thesis using d by (simp add: v1_filtrar_cliente_None)
qed

lemma v1_contas_de_outros_com_titular:
  "list_all (\<lambda>c. v1_cliente c \<noteq> None) cs \<Longrightarrow>
     v1_contas_de_outros cpf cs
       = Some (filter (\<lambda>c. map_option v1_cpf (v1_cliente c) \<noteq> Some cpf) cs)"
  by (induction cs) auto

lemma v1_contas_de_outros_sem_titular:
  "list_ex (\<lambda>c. v1_cliente c = None) cs \<Longrightarrow> v1_contas_de_outros cpf cs = None"
  by (induction cs) (auto split: option.splits)

lemma v1_excluir_cliente_confirmado:
  assumes "v1_filtrar_cliente cpf (v1_clientes b) = Some cl"
    and "list_all (\<lambda>c. v1_cliente c \<noteq> None) (v1_contas b)"
  shows "v1_excluir_cliente b cpf False = (SemMensagem, b)"
    and "v1_excluir_cliente b cpf True
           = (ClienteExcluido,
              b\<lparr>v1_clientes := remove1 cl (v1_clientes b),
                v1_contas := filter (\<lambda>c. map_option v1_cpf (v1_cliente c) \<noteq> Some cpf)
                               (v1_contas b)\<rparr>)"
    and "list_all (\<lambda>c. map_option v1_cpf (v1_cliente c) \<noteq> Some cpf)
           (v1_contas (snd (v1_excluir_cliente b cpf True)))"
    and "distinct (map v1_cpf (v1_clientes b)) \<Longrightarrow>
           v1_filtrar_cliente cpf (v1_clientes (snd (v1_excluir_cliente b cpf True))) = None"
  using assms
  by (simp_all add: v1_excluir_cliente_def v1_filtrar_remove1 list_all_iff
        v1_contas_de_outros_com_titular)

text \<open>
  In the procedural program an account whose \<open>"cliente"\<close> is \<open>None\<close> makes the removal
  of any client fail after the client is removed: the client is gone and every account
  is kept.
\<close>

lemma v1_excluir_cliente_conta_sem_titular:
  "v1_excluir_cliente banco_v1_sem_titular ''12345678900'' True
     = (ExcecaoTypeError, banco_v1_sem_titular\<lparr>v1_clientes := []\<rparr>)"
  by (simp add: v1_excluir_cliente_def banco_v1_sem_titular_def banco_v1_maria_def
        banco_v1_exemplo_def maria_v1_def conta_v1_cem_eq conta_v1_mil_eq conta_v1_nova_def
        Let_def)

text \<open>
  C2, as amended. Let the identifier typed be that of a client that owns at least one
  account, and let \<open>excluir_cliente\<close> be called as the menu calls it, with
  \<open>banco.listar_contas()\<close>.
  \<^item> Cascade declined: "Exclusao do cliente cancelada devido a contas ativas"; nothing
    changes.
  \<^item> Cascade confirmed and the final question confirmed: the client is removed, and the
    accounts of the bank are those it had less the client's; no account of the client
    remains when the accounts are pairwise different, and a lookup of the identifier
    returns nothing when the identifiers are.
  \<^item> Cascade confirmed and the final question declined: "Exclusao cancelada", yet the
    client's accounts are gone; the client remains, with no account.
  No answer removes the client and leaves accounts of theirs. In the procedural program
  there is one question: any answer but "s" changes nothing, and "s" removes the client
  and every account of that CPF together when every account of the bank records a
  client.
\<close>

theorem C2_exclusao_em_cascata:
  assumes "filtrar_cliente i clientes = Some cli" and "contas cli \<noteq> []"
  shows
    "excluir_cliente clientes (listar_contas clientes) i False conf
       = Some (CanceladaContasAtivas, clientes, listar_contas clientes)
     \<and> (\<exists>todas'. excluir_cliente clientes (listar_contas clientes) i True True
                   = Some (ClienteExcluido, remove1 cli clientes, todas'))
     \<and> mset (listar_contas (remove1 cli clientes))
         = mset (listar_contas clientes) - mset (contas cli)
     \<and> (distinct (listar_contas clientes) \<longrightarrow>
          set (contas cli) \<inter> set (listar_contas (remove1 cli clientes)) = {})
     \<and> (distinct (map identificador_de clientes) \<longrightarrow>
          filtrar_cliente i (remove1 cli clientes) = None)
     \<and> (\<exists>todas'. excluir_cliente clientes (listar_contas clientes) i True False
                   = Some (ExclusaoCancelada,
                           modificar_cliente i (\<lambda>x. x\<lparr>contas := []\<rparr>) clientes, todas'))
     \<and> filtrar_cliente i (modificar_cliente i (\<lambda>x. x\<lparr>contas := []\<rparr>) clientes)
         = Some (cli\<lparr>contas := []\<rparr>)
     \<and> mset (listar_contas (modificar_cliente i (\<lambda>x. x\<lparr>contas := []\<rparr>) clientes))
         = mset (listar_contas clientes) - mset (contas cli)
     \<and> (v1_filtrar_cliente cpf (v1_clientes b) = Some cl \<longrightarrow>
        list_all (\<lambda>c. v1_cliente c \<noteq> None) (v1_contas b) \<longrightarrow>
          v1_excluir_cliente b cpf False = (SemMensagem, b)
          \<and> v1_excluir_cliente b cpf True
              = (ClienteExcluido,
                 b\<lparr>v1_clientes := remove1 cl (v1_clientes b),
                   v1_contas := filter (\<lambda>c. map_option v1_cpf (v1_cliente c) \<noteq> Some cpf)
                                  (v1_contas b)\<rparr>)
          \<and> list_all (\<lambda>c. map_option v1_cpf (v1_cliente c) \<noteq> Some cpf)
                (v1_contas (snd (v1_excluir_cliente b cpf True)))
          \<and> (distinct (map v1_cpf (v1_clientes b)) \<longrightarrow>
               v1_filtrar_cliente cpf (v1_clientes (snd (v1_excluir_cliente b cpf True))) = None))"
proof -
  have em: "cli \<in> set clientes" using assms(1) by (simp add: filtrar_cliente_Some)
  have a: "excluir_cliente clientes (listar_contas clientes) i False conf
             = Some (CanceladaContasAtivas, clientes, listar_contas clientes)"
    using assms by (rule excluir_cliente_sem_confirmar)
  have b: "\<exists>todas'. excluir_cliente clientes (listar_contas clientes) i True True
                   = Some (ClienteExcluido, remove1 cli clientes, todas')"
    using excluir_cliente_cascata [OF assms, of True] by simp
  have c: "mset (listar_contas (remove1 cli clientes))
             = mset (listar_contas clientes) - mset (contas cli)"
    using em by (rule listar_contas_remove1)
  have d: "distinct (listar_contas clientes) \<longrightarrow>
             set (contas cli) \<inter> set (listar_contas (remove1 cli clientes)) = {}"
    using c sem_contas_apos_remocao by blast
  have e: "distinct (map identificador_de clientes) \<longrightarrow>
             filtrar_cliente i (remove1 cli clientes) = None"
    using assms(1) filtrar_remove1 by blast
  have f: "\<exists>todas'. excluir_cliente clientes (listar_contas clientes) i True False
                   = Some (ExclusaoCancelada,
                           modificar_cliente i (\<lambda>x. x\<lparr>contas := []\<rparr>) clientes, todas')"
    using excluir_cliente_cascata [OF assms, of False] by simp
  have g: "filtrar_cliente i (modificar_cliente i (\<lambda>x. x\<lparr>contas := []\<rparr>) clientes)
             = Some (cli\<lparr>contas := []\<rparr>)"
    using assms(1) by (simp add: filtrar_modificar)
  have h: "mset (listar_contas (modificar_cliente i (\<lambda>x. x\<lparr>contas := []\<rparr>) clientes))
             = mset (listar_contas clientes) - mset (contas cli)"
    using assms(1) by (rule listar_contas_esvaziar)
  have v1: "v1_filtrar_cliente cpf (v1_clientes b) = Some cl \<longrightarrow>
        list_all (\<lambda>c. v1_cliente c \<noteq> None) (v1_contas b) \<longrightarrow>
          v1_excluir_cliente b cpf False = (SemMensagem, b)
          \<and> v1_excluir_cliente b cpf True
              = (ClienteExcluido,
                 b\<lparr>v1_clientes := remove1 cl (v1_clientes b),
                   v1_contas := filter (\<lambda>c. map_option v1_cpf (v1_cliente c) \<noteq> Some cpf)
                                  (v1_contas b)\<rparr>)
          \<and> list_all (\<lambda>c. map_option v1_cpf (v1_cliente c) \<noteq> Some cpf)
                (v1_contas (snd (v1_excluir_cliente b cpf True)))
          \<and> (distinct (map v1_cpf (v1_clientes b)) \<longrightarrow>
               v1_filtrar_cliente cpf (v1_clientes (snd (v1_excluir_cliente b cpf True))) = None)"
    using v1_excluir_cliente_confirmado [of cpf b cl] by blast
  show ?thesis using a b c d e f g h v1 by (intro conjI)
qed

text \<open>Scenario D: Maria owns two accounts.\<close>

theorem C2_witness:
  "filtrar_cliente ''12345678900'' [maria_titular] = Some maria_titular
   \<and> contas maria_titular = [conta_mil, poupanca_mil]
   \<and> excluir_cliente [maria_titular] (listar_contas [maria_titular]) ''12345678900'' False True
       = Some (CanceladaContasAtivas, [maria_titular], [conta_mil, poupanca_mil])
   \<and> excluir_cliente [maria_titular] (listar_contas [maria_titular]) ''12345678900'' True True
       = Some (ClienteExcluido, [], [])
   \<and> distinct (listar_contas [maria_titular])
   \<and> distinct (map identificador_de [maria_titular])
   \<and> filtrar_cliente ''12345678900'' (remove1 maria_titular [maria_titular]) = None
   \<and> listar_contas (remove1 maria_titular [maria_titular]) = []
   \<and> v1_filtrar_cliente ''12345678900'' (v1_clientes banco_v1_maria) = Some maria_v1
   \<and> list_all (\<lambda>c. v1_cliente c \<noteq> None) (v1_contas banco_v1_maria)
   \<and> distinct (map v1_cpf (v1_clientes banco_v1_maria))
   \<and> v1_excluir_cliente banco_v1_maria ''12345678900'' False = (SemMensagem, banco_v1_maria)
   \<and> v1_excluir_cliente banco_v1_maria ''12345678900'' True
       = (ClienteExcluido, banco_v1_exemplo)
   \<and> v1_filtrar_cliente ''12345678900'' (v1_clientes banco_v1_exemplo) = None"
  using C2_exclusao_em_cascata [where i = "''12345678900''" and clientes = "[maria_titular]"
      and cli = maria_titular and conf = True and cpf = "''12345678900''"
      and b = banco_v1_maria and cl = maria_v1]
  by (simp add: maria_titular_def maria_def conta_mil_eq poupanca_mil_eq listar_contas_def
        excluir_cliente_def banco_v1_maria_def banco_v1_exemplo_def conta_v1_nova_def
        conta_v1_cem_eq conta_v1_mil_eq v1_excluir_cliente_def maria_v1_def avaliar)

text \<open>The claim as stated fails: with the cascade confirmed and the final question
  declined, both accounts are destroyed and the client remains.\<close>

theorem C2_counterexample:
  "filtrar_cliente ''12345678900'' [maria_titular] = Some maria_titular
   \<and> contas maria_titular = [conta_mil, poupanca_mil]
   \<and> excluir_cliente [maria_titular] (listar_contas [maria_titular]) ''12345678900'' True False
       = Some (ExclusaoCancelada, [maria], [])
   \<and> filtrar_cliente ''12345678900'' [maria] = Some maria
   \<and> listar_contas [maria] = []
   \<and> [maria] \<noteq> [maria_titular]"
  by (simp add: maria_titular_def maria_def conta_mil_eq poupanca_mil_eq listar_contas_def
        excluir_cliente_def)

end
